theory Spec2Isabelle
  imports Main "HOL-Library.Char_ord" "HOL-Library.List_Lexorder" "HOL-Library.Sublist"
begin

section \<open>Library values used by the model builder\<close>

subsection \<open>Errors of \<^verbatim>\<open>github.com/pkg/errors\<close>\<close>

text \<open>
  \<^verbatim>\<open>errors.New\<close> and \<^verbatim>\<open>errors.Errorf\<close> both build the package's message-only error
  (\<^verbatim>\<open>fundamental\<close>); \<^verbatim>\<open>errors.Wrapf\<close> puts a message in front of a cause
  (\<^verbatim>\<open>withMessage\<close>). The recorded call stack plays no role here and is left out.
\<close>

datatype error = fundamental string | withMessage error string

fun Error :: "error \<Rightarrow> string" where
  "Error (fundamental m) = m"
| "Error (withMessage c m) = m @ '': '' @ Error c"

text \<open>
  \<^verbatim>\<open>fmt.Sprintf\<close>, restricted to the verb \<^verbatim>\<open>%v\<close>, the only one the builder uses. The operands
  arrive already formatted. A verb without an operand prints Go's \<^verbatim>\<open>%!v(MISSING)\<close>; surplus
  operands (never passed by the builder) are dropped.
\<close>

fun Sprintf :: "string \<Rightarrow> string list \<Rightarrow> string" where
  "Sprintf [] args = []"
| "Sprintf [c] args = [c]"
| "Sprintf (c # d # fmt) args =
     (if c = CHR ''%'' \<and> d = CHR ''v''
      then (case args of
              [] \<Rightarrow> ''%!v(MISSING)'' @ Sprintf fmt []
            | a # as \<Rightarrow> a @ Sprintf fmt as)
      else c # Sprintf (d # fmt) args)"

definition errors_New :: "string \<Rightarrow> error" where
  "errors_New message = fundamental message"

definition errors_Errorf :: "string \<Rightarrow> string list \<Rightarrow> error" where
  "errors_Errorf format args = fundamental (Sprintf format args)"

definition errors_Wrapf :: "error \<Rightarrow> string \<Rightarrow> string list \<Rightarrow> error" where
  "errors_Wrapf err format args = withMessage err (Sprintf format args)"

subsection \<open>Formatting of operands under \<^verbatim>\<open>%v\<close>\<close>

record NamespacedName =
  Namespace :: string
  Name :: string

text \<open>The zero value of \<^verbatim>\<open>types.NamespacedName\<close>, held by a declared but unassigned variable.\<close>

definition zeroNamespacedName :: NamespacedName where
  "zeroNamespacedName = \<lparr>Namespace = [], Name = []\<rparr>"

text \<open>\<^verbatim>\<open>NamespacedName.String()\<close>: namespace, the separator \<^verbatim>\<open>/\<close>, name.\<close>

definition fmt_NamespacedName :: "NamespacedName \<Rightarrow> string" where
  "fmt_NamespacedName n = Namespace n @ ''/'' @ Name n"

fun join_space :: "string list \<Rightarrow> string" where
  "join_space [] = []"
| "join_space [x] = x"
| "join_space (x # y # ys) = x @ '' '' @ join_space (y # ys)"

text \<open>A \<^verbatim>\<open>[]string\<close> prints as its elements between brackets, separated by spaces.\<close>

definition fmt_strings :: "string list \<Rightarrow> string" where
  "fmt_strings xs = ''['' @ join_space xs @ '']''"

function fmt_digits :: "nat \<Rightarrow> string" where
  "fmt_digits n =
     (if n < 10 then [''0123456789'' ! n]
      else fmt_digits (n div 10) @ [''0123456789'' ! (n mod 10)])"
  by pat_completeness auto
termination
  by (relation "measure (\<lambda>n. n)") auto

definition fmt_int64 :: "int \<Rightarrow> string" where
  "fmt_int64 i = (if i < 0 then ''-'' @ fmt_digits (nat (- i)) else fmt_digits (nat i))"

text \<open>\<^verbatim>\<open>awssdk.StringValue\<close>: the pointed-to string, or the empty string for a nil pointer.\<close>

definition StringValue :: "string option \<Rightarrow> string" where
  "StringValue p = (case p of None \<Rightarrow> [] | Some s \<Rightarrow> s)"

section \<open>Data model of the ingress model builder\<close>

text \<open>
  Modelled from the spec: the type \<^verbatim>\<open>elbv2model.Protocol\<close> and its constants are declared
  outside the files at hand. The data model gives a listen port's protocol as HTTP or HTTPS;
  the builder only compares protocols and prints them.
\<close>

datatype Protocol = ProtocolHTTP | ProtocolHTTPS

fun fmt_Protocol :: "Protocol \<Rightarrow> string" where
  "fmt_Protocol ProtocolHTTP = ''HTTP''"
| "fmt_Protocol ProtocolHTTPS = ''HTTPS''"

text \<open>
  Modelled from the spec: the struct \<^verbatim>\<open>listenPortConfig\<close> is declared outside the files at
  hand; its fields are the ones \<^verbatim>\<open>mergeListenPortConfigs\<close> reads and writes. The optional SSL
  policy is a \<^verbatim>\<open>*string\<close>.
\<close>

record listenPortConfig =
  protocol :: Protocol
  inboundCIDRv4s :: "string list"
  inboundCIDRv6s :: "string list"
  sslPolicy :: "string option"
  tlsCerts :: "string list"

text \<open>The object metadata of a member ingress from which \<^verbatim>\<open>k8s.NamespacedName\<close> reads its key.\<close>

record Ingress =
  ObjNamespace :: string
  ObjName :: string

definition k8s_NamespacedName :: "'a Ingress_scheme \<Rightarrow> NamespacedName" where
  "k8s_NamespacedName ing = \<lparr>Namespace = ObjNamespace ing, Name = ObjName ing\<rparr>"

text \<open>
  The fields of \<^verbatim>\<open>defaultModelBuildTask\<close> that \<^verbatim>\<open>run\<close> and \<^verbatim>\<open>mergeListenPortConfigs\<close> read,
  and the defaults whose values \<^verbatim>\<open>Build\<close> writes as literals. The clients and the defaults
  taken from constants declared elsewhere are not needed.
\<close>

record 'i defaultModelBuildTask =
  ingGroupMembers :: "'i list"
  defaultSSLPolicy :: string
  defaultBackendProtocol :: Protocol
  defaultHealthCheckPath :: string
  defaultHealthCheckIntervalSeconds :: int
  defaultHealthCheckTimeoutSeconds :: int
  defaultHealthCheckHealthyThresholdCount :: int
  defaultHealthCheckUnhealthyThresholdCount :: int
  defaultHealthCheckMatcherHTTPCode :: string

text \<open>The task that \<^verbatim>\<open>Build\<close> constructs for a group.\<close>

definition newBuildTask :: "'i list \<Rightarrow> 'i defaultModelBuildTask" where
  "newBuildTask members =
     \<lparr>ingGroupMembers = members,
      defaultSSLPolicy = ''ELBSecurityPolicy-2016-08'',
      defaultBackendProtocol = ProtocolHTTP,
      defaultHealthCheckPath = ''/'',
      defaultHealthCheckIntervalSeconds = 15,
      defaultHealthCheckTimeoutSeconds = 5,
      defaultHealthCheckHealthyThresholdCount = 2,
      defaultHealthCheckUnhealthyThresholdCount = 2,
      defaultHealthCheckMatcherHTTPCode = ''200''\<rparr>"

section \<open>\<^verbatim>\<open>mergeListenPortConfigs\<close>\<close>

text \<open>The local variables of the function: the state its loop updates.\<close>

record mergeState =
  mergedProtocol :: "Protocol option"
  mergedProtocolProvider :: NamespacedName
  mergedInboundCIDRv4s :: "string list"
  mergedInboundCIDRv6s :: "string list"
  mergedInboundCIDRsProvider :: NamespacedName
  mergedSSLPolicy :: "string option"
  mergedSSLPolicyProvider :: NamespacedName
  mergedTLSCerts :: "string set"

definition initialMergeState :: mergeState where
  "initialMergeState =
     \<lparr>mergedProtocol = None,
      mergedProtocolProvider = zeroNamespacedName,
      mergedInboundCIDRv4s = [],
      mergedInboundCIDRv6s = [],
      mergedInboundCIDRsProvider = zeroNamespacedName,
      mergedSSLPolicy = None,
      mergedSSLPolicyProvider = zeroNamespacedName,
      mergedTLSCerts = {}\<rparr>"

text \<open>First block of the loop body: the protocol.\<close>

definition mergeProtocol ::
  "mergeState \<Rightarrow> NamespacedName \<Rightarrow> listenPortConfig \<Rightarrow> error + mergeState" where
  "mergeProtocol st ingKey cfg =
     (case mergedProtocol st of
        None \<Rightarrow> Inr (st\<lparr>mergedProtocol := Some (protocol cfg), mergedProtocolProvider := ingKey\<rparr>)
      | Some p \<Rightarrow>
          if p \<noteq> protocol cfg
          then Inl (errors_Errorf ''conflicting protocol, %v: %v | %v: %v''
                 [fmt_NamespacedName (mergedProtocolProvider st), fmt_Protocol p,
                  fmt_NamespacedName ingKey, fmt_Protocol (protocol cfg)])
          else Inr st)"

definition definedCIDRsInCfg :: "listenPortConfig \<Rightarrow> bool" where
  "definedCIDRsInCfg cfg \<longleftrightarrow> length (inboundCIDRv4s cfg) \<noteq> 0 \<or> length (inboundCIDRv6s cfg) \<noteq> 0"

definition definedCIDRsInMergedCfg :: "mergeState \<Rightarrow> bool" where
  "definedCIDRsInMergedCfg st \<longleftrightarrow>
     length (mergedInboundCIDRv4s st) \<noteq> 0 \<or> length (mergedInboundCIDRv6s st) \<noteq> 0"

text \<open>
  Second block: the inbound CIDRs. The provider variable is never assigned, so the error
  prints its zero value.
\<close>

definition mergeInboundCIDRs ::
  "mergeState \<Rightarrow> NamespacedName \<Rightarrow> listenPortConfig \<Rightarrow> error + mergeState" where
  "mergeInboundCIDRs st ingKey cfg =
     (if definedCIDRsInCfg cfg
      then (if \<not> definedCIDRsInMergedCfg st
            then Inr (st\<lparr>mergedInboundCIDRv4s := inboundCIDRv4s cfg,
                         mergedInboundCIDRv6s := inboundCIDRv6s cfg\<rparr>)
            else Inl (errors_Errorf ''conflicting sslPolicy, %v: %v, %v | %v: %v, %v''
                   [fmt_NamespacedName (mergedInboundCIDRsProvider st),
                    fmt_strings (mergedInboundCIDRv4s st), fmt_strings (mergedInboundCIDRv6s st),
                    fmt_NamespacedName ingKey,
                    fmt_strings (inboundCIDRv4s cfg), fmt_strings (inboundCIDRv6s cfg)]))
      else Inr st)"

text \<open>Third block: the SSL policy.\<close>

definition mergeSSLPolicy ::
  "mergeState \<Rightarrow> NamespacedName \<Rightarrow> listenPortConfig \<Rightarrow> error + mergeState" where
  "mergeSSLPolicy st ingKey cfg =
     (if sslPolicy cfg \<noteq> None
      then (if mergedSSLPolicy st = None
            then Inr (st\<lparr>mergedSSLPolicy := sslPolicy cfg, mergedSSLPolicyProvider := ingKey\<rparr>)
            else if StringValue (mergedSSLPolicy st) \<noteq> StringValue (sslPolicy cfg)
            then Inl (errors_Errorf ''conflicting sslPolicy, %v: %v | %v: %v''
                   [fmt_NamespacedName (mergedSSLPolicyProvider st), StringValue (mergedSSLPolicy st),
                    fmt_NamespacedName ingKey, StringValue (sslPolicy cfg)])
            else Inr st)
      else Inr st)"

text \<open>One iteration: the three blocks in order, then the insertion of the certificates.\<close>

definition mergeIteration ::
  "mergeState \<Rightarrow> NamespacedName \<times> listenPortConfig \<Rightarrow> error + mergeState" where
  "mergeIteration st entry =
     (case entry of (ingKey, cfg) \<Rightarrow>
        (case mergeProtocol st ingKey cfg of
           Inl err \<Rightarrow> Inl err
         | Inr st1 \<Rightarrow>
            (case mergeInboundCIDRs st1 ingKey cfg of
               Inl err \<Rightarrow> Inl err
             | Inr st2 \<Rightarrow>
                (case mergeSSLPolicy st2 ingKey cfg of
                   Inl err \<Rightarrow> Inl err
                 | Inr st3 \<Rightarrow>
                     Inr (st3\<lparr>mergedTLSCerts := mergedTLSCerts st3 \<union> set (tlsCerts cfg)\<rparr>)))))"

text \<open>
  The loop over the map. Go leaves the iteration order of a map unspecified: the list is the
  order in which one run visits the entries, its keys pairwise distinct.
\<close>

fun mergeLoop ::
  "mergeState \<Rightarrow> (NamespacedName \<times> listenPortConfig) list \<Rightarrow> error + mergeState" where
  "mergeLoop st [] = Inr st"
| "mergeLoop st (entry # entries) =
     (case mergeIteration st entry of
        Inl err \<Rightarrow> Inl err
      | Inr st' \<Rightarrow> mergeLoop st' entries)"

text \<open>
  What follows the loop: the nil check, the defaults, and the result.
  \<^verbatim>\<open>sets.String.List\<close> returns the members in sorted order.
\<close>

definition mergeFinish :: "'i defaultModelBuildTask \<Rightarrow> mergeState \<Rightarrow> error + listenPortConfig" where
  "mergeFinish t st =
     (case mergedProtocol st of
        None \<Rightarrow> Inl (errors_New ''should never happen'')
      | Some p \<Rightarrow>
          (let undefined_cidrs =
                 (length (mergedInboundCIDRv4s st) = 0 \<and> length (mergedInboundCIDRv6s st) = 0);
               v4s = (if undefined_cidrs then mergedInboundCIDRv4s st @ [''0.0.0.0/0'']
                      else mergedInboundCIDRv4s st);
               v6s = (if undefined_cidrs then mergedInboundCIDRv6s st @ [''::/0'']
                      else mergedInboundCIDRv6s st);
               pol = (if p = ProtocolHTTPS \<and> mergedSSLPolicy st = None
                      then Some (defaultSSLPolicy t) else mergedSSLPolicy st)
           in Inr \<lparr>protocol = p,
                   inboundCIDRv4s = v4s,
                   inboundCIDRv6s = v6s,
                   sslPolicy = pol,
                   tlsCerts = sorted_list_of_set (mergedTLSCerts st)\<rparr>))"

definition mergeListenPortConfigs ::
  "'i defaultModelBuildTask \<Rightarrow> (NamespacedName \<times> listenPortConfig) list \<Rightarrow> error + listenPortConfig" where
  "mergeListenPortConfigs t listenPortConfigByIngress =
     (case mergeLoop initialMergeState listenPortConfigByIngress of
        Inl err \<Rightarrow> Inl err
      | Inr st \<Rightarrow> mergeFinish t st)"

section \<open>\<^verbatim>\<open>run\<close>\<close>

text \<open>
  The methods \<^verbatim>\<open>run\<close> calls that are defined in other files of the package are parameters:
  the per-member computation and the builders, which change the stack and the task (\<open>'s\<close>) and
  may fail. A Go map is a list of entries with distinct keys, in the order of its iteration.
  The maps that \<^verbatim>\<open>run\<close> builds itself are ranged over in the order of insertion, one of the
  orders Go may take; with several failing ports, or members in conflict, Go may return another
  of the merge errors.
\<close>

record ('i, 's, 'lb, 'ls) collaborators =
  computeIngressListenPortConfigByPort :: "'i \<Rightarrow> error + (int \<times> listenPortConfig) list"
  buildLoadBalancer :: "'s \<Rightarrow> (int \<times> listenPortConfig) list \<Rightarrow> error + ('lb \<times> 's)"
  buildListener :: "'s \<Rightarrow> 'lb \<Rightarrow> int \<Rightarrow> listenPortConfig \<Rightarrow> 'i list \<Rightarrow> error + ('ls \<times> 's)"
  buildListenerRules :: "'s \<Rightarrow> 'ls \<Rightarrow> int \<Rightarrow> Protocol \<Rightarrow> 'i list \<Rightarrow> error + 's"
  buildLoadBalancerAddOns :: "'s \<Rightarrow> 'lb \<Rightarrow> error + 's"

fun map_put :: "'k \<Rightarrow> 'v \<Rightarrow> ('k \<times> 'v) list \<Rightarrow> ('k \<times> 'v) list" where
  "map_put k v [] = [(k, v)]"
| "map_put k v ((k', v') # m) = (if k = k' then (k, v) # m else (k', v') # map_put k v m)"

text \<open>Reading a missing key of a map of slices or of maps gives the empty one.\<close>

definition map_get_list :: "('k \<times> 'v list) list \<Rightarrow> 'k \<Rightarrow> 'v list" where
  "map_get_list m k = (case map_of m k of None \<Rightarrow> [] | Some v \<Rightarrow> v)"

record 'i portAggregate =
  ingListByPort :: "(int \<times> 'i list) list"
  listenPortConfigsByPort :: "(int \<times> (NamespacedName \<times> listenPortConfig) list) list"

text \<open>The body of the inner loop of the first loop, for one port of one member.\<close>

definition addPortConfig ::
  "'a Ingress_scheme \<Rightarrow> int \<times> listenPortConfig \<Rightarrow> ('a Ingress_scheme) portAggregate
     \<Rightarrow> ('a Ingress_scheme) portAggregate" where
  "addPortConfig ing entry agg =
     (case entry of (port, cfg) \<Rightarrow>
        \<lparr>ingListByPort =
           map_put port (map_get_list (ingListByPort agg) port @ [ing]) (ingListByPort agg),
         listenPortConfigsByPort =
           map_put port
             (map_put (k8s_NamespacedName ing) cfg (map_get_list (listenPortConfigsByPort agg) port))
             (listenPortConfigsByPort agg)\<rparr>)"

text \<open>The first loop: it returns the error of the per-member computation as it is.\<close>

fun collectListenPortConfigs ::
  "('a Ingress_scheme, 's, 'lb, 'ls) collaborators \<Rightarrow> ('a Ingress_scheme) portAggregate
     \<Rightarrow> ('a Ingress_scheme) list \<Rightarrow> error + ('a Ingress_scheme) portAggregate" where
  "collectListenPortConfigs c agg [] = Inr agg"
| "collectListenPortConfigs c agg (ing # ings) =
     (case computeIngressListenPortConfigByPort c ing of
        Inl err \<Rightarrow> Inl err
      | Inr listenPortConfigByPortForIngress \<Rightarrow>
          collectListenPortConfigs c (fold (addPortConfig ing) listenPortConfigByPortForIngress agg) ings)"

text \<open>The second loop: one merge per port, its error wrapped with the port.\<close>

fun mergeAllPorts ::
  "'i defaultModelBuildTask \<Rightarrow> (int \<times> listenPortConfig) list
     \<Rightarrow> (int \<times> (NamespacedName \<times> listenPortConfig) list) list
     \<Rightarrow> error + (int \<times> listenPortConfig) list" where
  "mergeAllPorts t listenPortConfigByPort [] = Inr listenPortConfigByPort"
| "mergeAllPorts t listenPortConfigByPort ((port, cfgs) # rest) =
     (case mergeListenPortConfigs t cfgs of
        Inl err \<Rightarrow>
          Inl (errors_Wrapf err ''failed to merge listPort config for port: %v'' [fmt_int64 port])
      | Inr mergedCfg \<Rightarrow> mergeAllPorts t (map_put port mergedCfg listenPortConfigByPort) rest)"

text \<open>The third loop: a listener and its rules per merged port.\<close>

fun buildListeners ::
  "('i, 's, 'lb, 'ls) collaborators \<Rightarrow> (int \<times> 'i list) list \<Rightarrow> 'lb \<Rightarrow> 's
     \<Rightarrow> (int \<times> listenPortConfig) list \<Rightarrow> error + 's" where
  "buildListeners c ingLists lb s [] = Inr s"
| "buildListeners c ingLists lb s ((port, cfg) # rest) =
     (let ingList = map_get_list ingLists port in
      case buildListener c s lb port cfg ingList of
        Inl err \<Rightarrow> Inl err
      | Inr (ls, s1) \<Rightarrow>
          (case buildListenerRules c s1 ls port (protocol cfg) ingList of
             Inl err \<Rightarrow> Inl err
           | Inr s2 \<Rightarrow> buildListeners c ingLists lb s2 rest))"

definition run ::
  "('a Ingress_scheme, 's, 'lb, 'ls) collaborators \<Rightarrow> ('a Ingress_scheme) defaultModelBuildTask
     \<Rightarrow> 's \<Rightarrow> error + 's" where
  "run c t s =
     (if length (ingGroupMembers t) = 0 then Inr s
      else
        case collectListenPortConfigs c \<lparr>ingListByPort = [], listenPortConfigsByPort = []\<rparr>
               (ingGroupMembers t) of
          Inl err \<Rightarrow> Inl err
        | Inr agg \<Rightarrow>
           (case mergeAllPorts t [] (listenPortConfigsByPort agg) of
              Inl err \<Rightarrow> Inl err
            | Inr listenPortConfigByPort \<Rightarrow>
               (case buildLoadBalancer c s listenPortConfigByPort of
                  Inl err \<Rightarrow> Inl err
                | Inr (lb, s1) \<Rightarrow>
                   (case buildListeners c (ingListByPort agg) lb s1 listenPortConfigByPort of
                      Inl err \<Rightarrow> Inl err
                    | Inr s2 \<Rightarrow>
                       (case buildLoadBalancerAddOns c s2 lb of
                          Inl err \<Rightarrow> Inl err
                        | Inr s3 \<Rightarrow> Inr s3)))))"

section \<open>The protection synthesizer\<close>

text \<open>
  Modelled from the spec: the synthesizer of \<^verbatim>\<open>pkg/deploy/shield\<close> is not among the files at
  hand, only its tests are. The definitions below follow the contract of the reconciling
  synthesizer: the desired resources of the stack, the manager's three operations, and the
  four cases on the live record. The ownership marker is the name the tests pass to
  \<^verbatim>\<open>CreateProtection\<close>.
\<close>

datatype Token = LiteralStringToken string | DeferredToken string string string

record Protection =
  Enabled :: bool
  ResourceARN :: Token

record ProtectionInfo =
  ProtectionName :: string
  ProtectionID :: string

definition protectionNameManaged :: string where
  "protectionNameManaged = ''managed by aws-load-balancer-controller''"

text \<open>
  Modelled from the spec: the manager, over its own state \<open>'m\<close> (the live cloud state).
  \<open>GetProtection\<close> answers with the live record or with none; the other two may fail.
\<close>

record 'm ProtectionManager =
  GetProtection :: "'m \<Rightarrow> string \<Rightarrow> error + ProtectionInfo option"
  CreateProtection :: "'m \<Rightarrow> string \<Rightarrow> string \<Rightarrow> (error + string) \<times> 'm"
  DeleteProtection :: "'m \<Rightarrow> string \<Rightarrow> string \<Rightarrow> error option \<times> 'm"

datatype managerCall =
    GetCall string
  | CreateCall string string
  | DeleteCall string string

text \<open>What a pass has done so far: the live state, the calls issued, the errors met.\<close>

record 'm synthState =
  live :: 'm
  calls :: "managerCall list"
  errs :: "error list"

text \<open>
  Modelled from the spec: a token is a literal, or a reference resolved against the stack at
  synthesis time; the resolved attributes are a map from (kind, id, attribute).
\<close>

fun resolveToken :: "(string \<times> string \<times> string \<rightharpoonup> string) \<Rightarrow> Token \<Rightarrow> string option" where
  "resolveToken attrs (LiteralStringToken s) = Some s"
| "resolveToken attrs (DeferredToken kind ident attr) = attrs (kind, ident, attr)"

text \<open>
  Modelled from the spec: the reconciliation of one desired resource (contract, step 2).
  A failure of the manager is recorded for the resource.
\<close>

definition synthesizeProtection ::
  "'m ProtectionManager \<Rightarrow> (string \<times> string \<times> string \<rightharpoonup> string) \<Rightarrow> 'm synthState \<Rightarrow> Protection
     \<Rightarrow> 'm synthState" where
  "synthesizeProtection mgr attrs st res =
     (case resolveToken attrs (ResourceARN res) of
        None \<Rightarrow> st
      | Some arn \<Rightarrow>
         (let st1 = st\<lparr>calls := calls st @ [GetCall arn]\<rparr> in
          case GetProtection mgr (live st) arn of
            Inl err \<Rightarrow> st1\<lparr>errs := errs st1 @ [err]\<rparr>
          | Inr None \<Rightarrow>
              if Enabled res
              then (case CreateProtection mgr (live st) arn protectionNameManaged of
                      (r, m') \<Rightarrow>
                        (let st2 = st1\<lparr>live := m',
                                       calls := calls st1 @ [CreateCall arn protectionNameManaged]\<rparr>
                         in case r of Inl err \<Rightarrow> st2\<lparr>errs := errs st2 @ [err]\<rparr> | Inr _ \<Rightarrow> st2))
              else st1
          | Inr (Some info) \<Rightarrow>
              if ProtectionName info = protectionNameManaged
              then (if \<not> Enabled res
                    then (case DeleteProtection mgr (live st) arn (ProtectionID info) of
                            (r, m') \<Rightarrow>
                              (let st2 = st1\<lparr>live := m',
                                             calls := calls st1 @ [DeleteCall arn (ProtectionID info)]\<rparr>
                               in case r of Some err \<Rightarrow> st2\<lparr>errs := errs st2 @ [err]\<rparr> | None \<Rightarrow> st2))
                    else st1)
              else st1))"

text \<open>
  Modelled from the spec: one pass (contract, steps 1 and 3). With no desired resource
  nothing is read; otherwise every resource is reconciled and the errors are collected.
\<close>

definition Synthesize ::
  "'m ProtectionManager \<Rightarrow> (string \<times> string \<times> string \<rightharpoonup> string) \<Rightarrow> 'm \<Rightarrow> Protection list
     \<Rightarrow> 'm synthState" where
  "Synthesize mgr attrs m resProtections =
     fold (\<lambda>res st. synthesizeProtection mgr attrs st res) resProtections
       \<lparr>live = m, calls = [], errs = []\<rparr>"

fun mutatesARN :: "string \<Rightarrow> managerCall \<Rightarrow> bool" where
  "mutatesARN arn (GetCall a) = False"
| "mutatesARN arn (CreateCall a marker) = (a = arn)"
| "mutatesARN arn (DeleteCall a ident) = (a = arn)"

section \<open>Vocabulary of the properties\<close>

text \<open>
  The builder's errors carry a message and nothing else. The disagreements between members
  are reported with a message that starts with \<^verbatim>\<open>conflicting\<close>.
\<close>

definition isConflict :: "error \<Rightarrow> bool" where
  "isConflict err \<longleftrightarrow> prefix ''conflicting '' (Error err)"

text \<open>What the members of one port can agree or disagree on.\<close>

definition protocolsAgree :: "(NamespacedName \<times> listenPortConfig) list \<Rightarrow> bool" where
  "protocolsAgree entries \<longleftrightarrow>
     (\<forall>a\<in>set entries. \<forall>b\<in>set entries. protocol (snd a) = protocol (snd b))"

definition sslPoliciesAgree :: "(NamespacedName \<times> listenPortConfig) list \<Rightarrow> bool" where
  "sslPoliciesAgree entries \<longleftrightarrow>
     (\<forall>a\<in>set entries. \<forall>b\<in>set entries.
        sslPolicy (snd a) \<noteq> None \<and> sslPolicy (snd b) \<noteq> None \<longrightarrow> sslPolicy (snd a) = sslPolicy (snd b))"

definition cidrDefiners ::
  "(NamespacedName \<times> listenPortConfig) list \<Rightarrow> (NamespacedName \<times> listenPortConfig) list" where
  "cidrDefiners entries = filter (\<lambda>e. definedCIDRsInCfg (snd e)) entries"

text \<open>
  The kind of an error a caller can test without reading the message: which error type of
  the errors package it is.
\<close>

fun sameErrorKind :: "error \<Rightarrow> error \<Rightarrow> bool" where
  "sameErrorKind (fundamental m) (fundamental m') = True"
| "sameErrorKind (withMessage c m) (withMessage c' m') = True"
| "sameErrorKind e e' = False"

text \<open>The same members without their certificates.\<close>

definition stripTLSCerts ::
  "(NamespacedName \<times> listenPortConfig) list \<Rightarrow> (NamespacedName \<times> listenPortConfig) list" where
  "stripTLSCerts entries = map (\<lambda>(k, c). (k, c\<lparr>tlsCerts := []\<rparr>)) entries"

section \<open>The loop of \<^verbatim>\<open>mergeListenPortConfigs\<close>: auxiliary facts\<close>

lemma Sprintf_protocol_fmt:
  "Sprintf ''conflicting protocol, %v: %v | %v: %v'' [a, b, c, d] =
     ''conflicting protocol, '' @ a @ '': '' @ b @ '' | '' @ c @ '': '' @ d"
  by simp

lemma Sprintf_cidrs_fmt:
  "Sprintf ''conflicting sslPolicy, %v: %v, %v | %v: %v, %v'' [a, b, c, d, e, f] =
     ''conflicting sslPolicy, '' @ a @ '': '' @ b @ '', '' @ c @ '' | '' @ d @ '': '' @ e @ '', '' @ f"
  by simp

lemma Sprintf_sslPolicy_fmt:
  "Sprintf ''conflicting sslPolicy, %v: %v | %v: %v'' [a, b, c, d] =
     ''conflicting sslPolicy, '' @ a @ '': '' @ b @ '' | '' @ c @ '': '' @ d"
  by simp

lemma mergeIteration_Inr:
  "mergeIteration st (k, c) = Inr st' \<longleftrightarrow>
     (mergedProtocol st = None \<or> mergedProtocol st = Some (protocol c)) \<and>
     \<not> (definedCIDRsInCfg c \<and> definedCIDRsInMergedCfg st) \<and>
     (sslPolicy c = None \<or> mergedSSLPolicy st = None \<or> mergedSSLPolicy st = sslPolicy c) \<and>
     st' = st\<lparr>mergedProtocol := Some (protocol c),
             mergedProtocolProvider := (if mergedProtocol st = None then k else mergedProtocolProvider st),
             mergedInboundCIDRv4s := (if definedCIDRsInCfg c then inboundCIDRv4s c else mergedInboundCIDRv4s st),
             mergedInboundCIDRv6s := (if definedCIDRsInCfg c then inboundCIDRv6s c else mergedInboundCIDRv6s st),
             mergedSSLPolicy := (if sslPolicy c = None then mergedSSLPolicy st else sslPolicy c),
             mergedSSLPolicyProvider := (if sslPolicy c \<noteq> None \<and> mergedSSLPolicy st = None then k else mergedSSLPolicyProvider st),
             mergedTLSCerts := mergedTLSCerts st \<union> set (tlsCerts c)\<rparr>"
  by (auto simp: mergeIteration_def mergeProtocol_def mergeInboundCIDRs_def mergeSSLPolicy_def
      definedCIDRsInMergedCfg_def StringValue_def split: option.splits sum.splits if_splits)

lemma mergeProtocol_Inl:
  "mergeProtocol st k c = Inl err \<longleftrightarrow>
     (\<exists>p. mergedProtocol st = Some p \<and> p \<noteq> protocol c \<and>
          err = errors_Errorf ''conflicting protocol, %v: %v | %v: %v''
                  [fmt_NamespacedName (mergedProtocolProvider st), fmt_Protocol p,
                   fmt_NamespacedName k, fmt_Protocol (protocol c)])"
  by (auto simp: mergeProtocol_def split: option.splits)

lemma mergeProtocol_Inr:
  "mergeProtocol st k c = Inr st1 \<Longrightarrow>
     mergedInboundCIDRv4s st1 = mergedInboundCIDRv4s st \<and>
     mergedInboundCIDRv6s st1 = mergedInboundCIDRv6s st \<and>
     mergedInboundCIDRsProvider st1 = mergedInboundCIDRsProvider st \<and>
     (mergedProtocol st = None \<or> mergedProtocol st = Some (protocol c))"
  by (auto simp: mergeProtocol_def split: option.splits if_splits)

lemma mergeInboundCIDRs_Inl:
  "mergeInboundCIDRs st k c = Inl err \<longleftrightarrow>
     definedCIDRsInCfg c \<and> definedCIDRsInMergedCfg st \<and>
     err = errors_Errorf ''conflicting sslPolicy, %v: %v, %v | %v: %v, %v''
             [fmt_NamespacedName (mergedInboundCIDRsProvider st),
              fmt_strings (mergedInboundCIDRv4s st), fmt_strings (mergedInboundCIDRv6s st),
              fmt_NamespacedName k,
              fmt_strings (inboundCIDRv4s c), fmt_strings (inboundCIDRv6s c)]"
  by (auto simp: mergeInboundCIDRs_def)

lemma mergeSSLPolicy_Inl:
  "mergeSSLPolicy st k c = Inl err \<Longrightarrow> prefix ''conflicting sslPolicy, '' (Error err)"
  by (auto simp: mergeSSLPolicy_def errors_Errorf_def split: if_splits)

lemma mergeIteration_Inl_cases:
  "mergeIteration st (k, c) = Inl err \<Longrightarrow>
     (\<exists>p. mergedProtocol st = Some p \<and> p \<noteq> protocol c \<and> prefix ''conflicting protocol, '' (Error err))
     \<or> prefix ''conflicting sslPolicy, '' (Error err)"
  by (auto simp: mergeIteration_def mergeProtocol_Inl mergeInboundCIDRs_Inl errors_Errorf_def
      dest: mergeSSLPolicy_Inl split: sum.splits)

lemma mergeIteration_Inl_conflict:
  "mergeIteration st e = Inl err \<Longrightarrow> isConflict err"
  by (cases e) (auto simp: isConflict_def dest!: mergeIteration_Inl_cases elim!: prefixE)

lemma mergeLoop_append:
  "mergeLoop st (xs @ ys) =
     (case mergeLoop st xs of Inl err \<Rightarrow> Inl err | Inr st' \<Rightarrow> mergeLoop st' ys)"
  by (induction xs arbitrary: st) (auto split: sum.splits)

lemma mergeLoop_snoc:
  "mergeLoop st (xs @ [x]) =
     (case mergeLoop st xs of Inl err \<Rightarrow> Inl err | Inr st' \<Rightarrow> mergeIteration st' x)"
  by (simp add: mergeLoop_append split: sum.splits)

lemma mergeLoop_Inl_conflict:
  "mergeLoop st xs = Inl err \<Longrightarrow> isConflict err"
  by (induction xs arbitrary: st) (auto split: sum.splits dest: mergeIteration_Inl_conflict)

lemma mergeLoop_snoc_Inr:
  "mergeLoop st (xs @ [(k, c)]) = Inr st' \<longleftrightarrow>
     (\<exists>st0. mergeLoop st xs = Inr st0 \<and> mergeIteration st0 (k, c) = Inr st')"
  by (simp add: mergeLoop_snoc split: sum.splits)

lemma mergeLoop_protocol_inv:
  "mergeLoop initialMergeState xs = Inr st \<Longrightarrow>
     (xs = [] \<longrightarrow> mergedProtocol st = None) \<and>
     (\<forall>e\<in>set xs. mergedProtocol st = Some (protocol (snd e))) \<and>
     (xs \<noteq> [] \<longrightarrow> mergedProtocolProvider st = fst (hd xs))"
proof (induction xs arbitrary: st rule: rev_induct)
  case Nil
  then show ?case by (auto simp: initialMergeState_def)
next
  case (snoc x xs)
  obtain k c where x: "x = (k, c)" by (cases x)
  from snoc.prems obtain st0 where
    l: "mergeLoop initialMergeState xs = Inr st0" and i: "mergeIteration st0 (k, c) = Inr st"
    unfolding x mergeLoop_snoc_Inr by blast
  note ih = snoc.IH [OF l]
  from i ih show ?case
    unfolding x mergeIteration_Inr by (cases xs) auto
qed

lemma mergeLoop_cidrs_inv:
  "mergeLoop initialMergeState xs = Inr st \<Longrightarrow>
     ((\<forall>e\<in>set xs. \<not> definedCIDRsInCfg (snd e)) \<longrightarrow>
        mergedInboundCIDRv4s st = [] \<and> mergedInboundCIDRv6s st = []) \<and>
     (\<forall>e\<in>set xs. definedCIDRsInCfg (snd e) \<longrightarrow>
        mergedInboundCIDRv4s st = inboundCIDRv4s (snd e) \<and>
        mergedInboundCIDRv6s st = inboundCIDRv6s (snd e)) \<and>
     length (cidrDefiners xs) \<le> 1"
proof (induction xs arbitrary: st rule: rev_induct)
  case Nil
  then show ?case by (auto simp: initialMergeState_def cidrDefiners_def)
next
  case (snoc x xs)
  obtain k c where x: "x = (k, c)" by (cases x)
  from snoc.prems obtain st0 where
    l: "mergeLoop initialMergeState xs = Inr st0" and i: "mergeIteration st0 (k, c) = Inr st"
    unfolding x mergeLoop_snoc_Inr by blast
  note ih = snoc.IH [OF l]
  show ?case
  proof (cases "definedCIDRsInCfg c")
    case True
    with i have nd: "\<not> definedCIDRsInMergedCfg st0" unfolding mergeIteration_Inr by simp
    have none: "\<forall>e\<in>set xs. \<not> definedCIDRsInCfg (snd e)"
    proof
      fix e assume e: "e \<in> set xs"
      show "\<not> definedCIDRsInCfg (snd e)"
      proof
        assume "definedCIDRsInCfg (snd e)"
        with ih e have "mergedInboundCIDRv4s st0 = inboundCIDRv4s (snd e)"
          "mergedInboundCIDRv6s st0 = inboundCIDRv6s (snd e)" by auto
        with \<open>definedCIDRsInCfg (snd e)\<close> nd show False
          by (simp add: definedCIDRsInCfg_def definedCIDRsInMergedCfg_def)
      qed
    qed
    then have "cidrDefiners xs = []" by (simp add: cidrDefiners_def)
    with True i none show ?thesis
      unfolding x mergeIteration_Inr by (auto simp: cidrDefiners_def)
  next
    case False
    with i ih show ?thesis
      unfolding x mergeIteration_Inr by (auto simp: cidrDefiners_def)
  qed
qed

lemma mergeLoop_sslPolicy_inv:
  "mergeLoop initialMergeState xs = Inr st \<Longrightarrow>
     ((\<forall>e\<in>set xs. sslPolicy (snd e) = None) \<longrightarrow> mergedSSLPolicy st = None) \<and>
     (\<forall>e\<in>set xs. sslPolicy (snd e) \<noteq> None \<longrightarrow> mergedSSLPolicy st = sslPolicy (snd e))"
proof (induction xs arbitrary: st rule: rev_induct)
  case Nil
  then show ?case by (auto simp: initialMergeState_def)
next
  case (snoc x xs)
  obtain k c where x: "x = (k, c)" by (cases x)
  from snoc.prems obtain st0 where
    l: "mergeLoop initialMergeState xs = Inr st0" and i: "mergeIteration st0 (k, c) = Inr st"
    unfolding x mergeLoop_snoc_Inr by blast
  note ih = snoc.IH [OF l]
  from i have a: "sslPolicy c = None \<or> mergedSSLPolicy st0 = None \<or> mergedSSLPolicy st0 = sslPolicy c"
    and b: "mergedSSLPolicy st = (if sslPolicy c = None then mergedSSLPolicy st0 else sslPolicy c)"
    unfolding mergeIteration_Inr by simp_all
  show ?case
  proof (cases "sslPolicy c")
    case None
    with b ih show ?thesis unfolding x by auto
  next
    case (Some s)
    with a b ih show ?thesis unfolding x by force
  qed
qed

lemma mergeLoop_tlsCerts_inv:
  "mergeLoop initialMergeState xs = Inr st \<Longrightarrow>
     mergedTLSCerts st = (\<Union>e\<in>set xs. set (tlsCerts (snd e)))"
proof (induction xs arbitrary: st rule: rev_induct)
  case Nil
  then show ?case by (auto simp: initialMergeState_def)
next
  case (snoc x xs)
  obtain k c where x: "x = (k, c)" by (cases x)
  from snoc.prems obtain st0 where
    l: "mergeLoop initialMergeState xs = Inr st0" and i: "mergeIteration st0 (k, c) = Inr st"
    unfolding x mergeLoop_snoc_Inr by blast
  note ih = snoc.IH [OF l]
  from i ih show ?case
    unfolding x mergeIteration_Inr by auto
qed

lemma not_conflict_never_happen: "\<not> isConflict (errors_New ''should never happen'')"
  by (simp add: isConflict_def errors_New_def)

lemma mergeIteration_initial:
  "\<exists>st. mergeIteration initialMergeState (k, c) = Inr st \<and> mergedProtocol st = Some (protocol c)
     \<and> mergedProtocolProvider st = k"
  by (simp add: mergeIteration_Inr initialMergeState_def definedCIDRsInMergedCfg_def)

lemma mergeFinish_Inl:
  "mergeFinish t st = Inl err \<longleftrightarrow> mergedProtocol st = None \<and> err = errors_New ''should never happen''"
  by (auto simp: mergeFinish_def Let_def split: option.splits)

lemma mergeListenPortConfigs_Inl:
  "mergeListenPortConfigs t entries = Inl err \<longleftrightarrow>
     mergeLoop initialMergeState entries = Inl err \<or>
     (entries = [] \<and> err = errors_New ''should never happen'')"
proof (cases "mergeLoop initialMergeState entries")
  case (Inl e)
  then have "isConflict e" by (rule mergeLoop_Inl_conflict)
  then have "entries \<noteq> []" using Inl by auto
  with Inl show ?thesis by (simp add: mergeListenPortConfigs_def)
next
  case (Inr st)
  note inv = mergeLoop_protocol_inv [OF Inr]
  show ?thesis
  proof (cases entries)
    case Nil
    with Inr inv show ?thesis by (simp add: mergeListenPortConfigs_def mergeFinish_Inl)
  next
    case (Cons e es)
    with inv have "mergedProtocol st = Some (protocol (snd e))" by simp
    with Inr Cons show ?thesis by (simp add: mergeListenPortConfigs_def mergeFinish_Inl)
  qed
qed

lemma mergeFinish_fields:
  "mergeFinish t st = Inr cfg \<Longrightarrow>
     mergedProtocol st = Some (protocol cfg) \<and>
     inboundCIDRv4s cfg =
       (if mergedInboundCIDRv4s st = [] \<and> mergedInboundCIDRv6s st = [] then [''0.0.0.0/0'']
        else mergedInboundCIDRv4s st) \<and>
     inboundCIDRv6s cfg =
       (if mergedInboundCIDRv4s st = [] \<and> mergedInboundCIDRv6s st = [] then [''::/0'']
        else mergedInboundCIDRv6s st) \<and>
     sslPolicy cfg =
       (if protocol cfg = ProtocolHTTPS \<and> mergedSSLPolicy st = None then Some (defaultSSLPolicy t)
        else mergedSSLPolicy st) \<and>
     tlsCerts cfg = sorted_list_of_set (mergedTLSCerts st)"
  by (auto simp: mergeFinish_def Let_def split: option.splits)

lemma mergeFinish_Some:
  "mergedProtocol st = Some p \<Longrightarrow> \<exists>cfg. mergeFinish t st = Inr cfg"
  by (simp add: mergeFinish_def Let_def)

lemma mergeListenPortConfigs_Inr:
  "mergeListenPortConfigs t entries = Inr cfg \<longleftrightarrow>
     (\<exists>st. mergeLoop initialMergeState entries = Inr st \<and> mergeFinish t st = Inr cfg)"
  by (simp add: mergeListenPortConfigs_def split: sum.splits)

lemma mergeLoop_provider_inv:
  "mergeLoop initialMergeState xs = Inr st \<Longrightarrow> mergedInboundCIDRsProvider st = zeroNamespacedName"
proof (induction xs arbitrary: st rule: rev_induct)
  case Nil
  then show ?case by (auto simp: initialMergeState_def)
next
  case (snoc x xs)
  obtain k c where x: "x = (k, c)" by (cases x)
  from snoc.prems obtain st0 where
    l: "mergeLoop initialMergeState xs = Inr st0" and i: "mergeIteration st0 (k, c) = Inr st"
    unfolding x mergeLoop_snoc_Inr by blast
  from i snoc.IH [OF l] show ?case
    unfolding mergeIteration_Inr by simp
qed

lemma merged_fields:
  assumes "mergeListenPortConfigs t entries = Inr cfg"
  shows "entries \<noteq> []"
    and "\<forall>e\<in>set entries. protocol cfg = protocol (snd e)"
    and "(\<forall>e\<in>set entries. \<not> definedCIDRsInCfg (snd e)) \<longrightarrow>
           inboundCIDRv4s cfg = [''0.0.0.0/0''] \<and> inboundCIDRv6s cfg = [''::/0'']"
    and "\<forall>e\<in>set entries. definedCIDRsInCfg (snd e) \<longrightarrow>
           inboundCIDRv4s cfg = inboundCIDRv4s (snd e) \<and> inboundCIDRv6s cfg = inboundCIDRv6s (snd e)"
    and "(\<forall>e\<in>set entries. sslPolicy (snd e) = None) \<longrightarrow>
           sslPolicy cfg = (if protocol cfg = ProtocolHTTPS then Some (defaultSSLPolicy t) else None)"
    and "\<forall>e\<in>set entries. sslPolicy (snd e) \<noteq> None \<longrightarrow> sslPolicy cfg = sslPolicy (snd e)"
    and "tlsCerts cfg = sorted_list_of_set (\<Union>e\<in>set entries. set (tlsCerts (snd e)))"
proof -
  from assms obtain st where l: "mergeLoop initialMergeState entries = Inr st"
    and f: "mergeFinish t st = Inr cfg"
    unfolding mergeListenPortConfigs_Inr by blast
  note ff = mergeFinish_fields [OF f]
  note p = mergeLoop_protocol_inv [OF l]
  note c = mergeLoop_cidrs_inv [OF l]
  note s = mergeLoop_sslPolicy_inv [OF l]
  note x = mergeLoop_tlsCerts_inv [OF l]
  from ff p show "entries \<noteq> []" by auto
  from ff p show "\<forall>e\<in>set entries. protocol cfg = protocol (snd e)" by auto
  from ff c show "(\<forall>e\<in>set entries. \<not> definedCIDRsInCfg (snd e)) \<longrightarrow>
           inboundCIDRv4s cfg = [''0.0.0.0/0''] \<and> inboundCIDRv6s cfg = [''::/0'']" by simp
  show "\<forall>e\<in>set entries. definedCIDRsInCfg (snd e) \<longrightarrow>
           inboundCIDRv4s cfg = inboundCIDRv4s (snd e) \<and> inboundCIDRv6s cfg = inboundCIDRv6s (snd e)"
  proof (intro ballI impI)
    fix e assume e: "e \<in> set entries" and d: "definedCIDRsInCfg (snd e)"
    with c have eq: "mergedInboundCIDRv4s st = inboundCIDRv4s (snd e)"
      "mergedInboundCIDRv6s st = inboundCIDRv6s (snd e)" by auto
    with d have "\<not> (mergedInboundCIDRv4s st = [] \<and> mergedInboundCIDRv6s st = [])"
      by (simp add: definedCIDRsInCfg_def)
    with ff eq show "inboundCIDRv4s cfg = inboundCIDRv4s (snd e) \<and>
        inboundCIDRv6s cfg = inboundCIDRv6s (snd e)" by auto
  qed
  from ff s show "(\<forall>e\<in>set entries. sslPolicy (snd e) = None) \<longrightarrow>
           sslPolicy cfg = (if protocol cfg = ProtocolHTTPS then Some (defaultSSLPolicy t) else None)"
    by simp
  from ff s show "\<forall>e\<in>set entries. sslPolicy (snd e) \<noteq> None \<longrightarrow> sslPolicy cfg = sslPolicy (snd e)"
    by auto
  from ff x show "tlsCerts cfg = sorted_list_of_set (\<Union>e\<in>set entries. set (tlsCerts (snd e)))"
    by simp
qed

lemma mergeLoop_Inr_agree:
  assumes "mergeLoop initialMergeState xs = Inr st"
  shows "protocolsAgree xs \<and> length (cidrDefiners xs) \<le> 1 \<and> sslPoliciesAgree xs"
proof -
  note p = mergeLoop_protocol_inv [OF assms]
  note c = mergeLoop_cidrs_inv [OF assms]
  note s = mergeLoop_sslPolicy_inv [OF assms]
  have "protocolsAgree xs"
    unfolding protocolsAgree_def
  proof (intro ballI)
    fix a b assume "a \<in> set xs" "b \<in> set xs"
    with p have "mergedProtocol st = Some (protocol (snd a))"
      "mergedProtocol st = Some (protocol (snd b))" by blast+
    then show "protocol (snd a) = protocol (snd b)" by simp
  qed
  moreover have "sslPoliciesAgree xs"
    unfolding sslPoliciesAgree_def
  proof (intro ballI impI)
    fix a b assume "a \<in> set xs" "b \<in> set xs"
      and "sslPolicy (snd a) \<noteq> None \<and> sslPolicy (snd b) \<noteq> None"
    with s have "mergedSSLPolicy st = sslPolicy (snd a)" "mergedSSLPolicy st = sslPolicy (snd b)"
      by blast+
    then show "sslPolicy (snd a) = sslPolicy (snd b)" by simp
  qed
  ultimately show ?thesis using c by simp
qed

lemma protocolsAgree_snoc:
  assumes "protocolsAgree (xs @ [x])"
  shows "protocolsAgree xs \<and> (\<forall>e\<in>set xs. protocol (snd e) = protocol (snd x))"
proof -
  from assms have a: "\<And>a b. a \<in> set (xs @ [x]) \<Longrightarrow> b \<in> set (xs @ [x]) \<Longrightarrow>
      protocol (snd a) = protocol (snd b)"
    unfolding protocolsAgree_def by blast
  have "protocolsAgree xs"
    unfolding protocolsAgree_def by (intro ballI a) simp_all
  moreover have "\<forall>e\<in>set xs. protocol (snd e) = protocol (snd x)"
    by (intro ballI a) simp_all
  ultimately show ?thesis by (rule conjI)
qed

lemma sslPoliciesAgree_snoc:
  assumes "sslPoliciesAgree (xs @ [x])"
  shows "sslPoliciesAgree xs \<and>
     (\<forall>e\<in>set xs. sslPolicy (snd e) \<noteq> None \<and> sslPolicy (snd x) \<noteq> None \<longrightarrow>
        sslPolicy (snd e) = sslPolicy (snd x))"
  using assms unfolding sslPoliciesAgree_def by auto

lemma cidrDefiners_snoc:
  assumes "length (cidrDefiners (xs @ [x])) \<le> 1"
  shows "length (cidrDefiners xs) \<le> 1 \<and>
     (definedCIDRsInCfg (snd x) \<longrightarrow> (\<forall>e\<in>set xs. \<not> definedCIDRsInCfg (snd e)))"
proof (cases "definedCIDRsInCfg (snd x)")
  case True
  with assms have "length (cidrDefiners xs) + 1 \<le> 1" by (simp add: cidrDefiners_def)
  then have e: "cidrDefiners xs = []" by simp
  then have "\<forall>e\<in>set xs. \<not> definedCIDRsInCfg (snd e)"
    by (simp add: cidrDefiners_def filter_empty_conv)
  with e show ?thesis by simp
next
  case False
  with assms show ?thesis by (simp add: cidrDefiners_def)
qed

lemma agree_mergeLoop_Inr:
  "protocolsAgree xs \<Longrightarrow> length (cidrDefiners xs) \<le> 1 \<Longrightarrow> sslPoliciesAgree xs \<Longrightarrow>
     \<exists>st. mergeLoop initialMergeState xs = Inr st"
proof (induction xs rule: rev_induct)
  case Nil
  then show ?case by simp
next
  case (snoc x xs)
  obtain k c where x: "x = (k, c)" by (cases x)
  note pa = protocolsAgree_snoc [OF snoc.prems(1)]
  note ca = cidrDefiners_snoc [OF snoc.prems(2)]
  note sa = sslPoliciesAgree_snoc [OF snoc.prems(3)]
  from snoc.IH pa ca sa obtain st0 where l: "mergeLoop initialMergeState xs = Inr st0" by blast
  note p = mergeLoop_protocol_inv [OF l]
  note ci = mergeLoop_cidrs_inv [OF l]
  note s = mergeLoop_sslPolicy_inv [OF l]
  have a: "mergedProtocol st0 = None \<or> mergedProtocol st0 = Some (protocol c)"
  proof (cases xs)
    case Nil
    with p show ?thesis by simp
  next
    case (Cons e es)
    with p have "mergedProtocol st0 = Some (protocol (snd e))" by simp
    moreover from pa Cons have "protocol (snd e) = protocol c" by (simp add: x)
    ultimately show ?thesis by simp
  qed
  have b: "\<not> (definedCIDRsInCfg c \<and> definedCIDRsInMergedCfg st0)"
  proof
    assume d: "definedCIDRsInCfg c \<and> definedCIDRsInMergedCfg st0"
    with ca have "\<forall>e\<in>set xs. \<not> definedCIDRsInCfg (snd e)" by (simp add: x)
    with ci d show False by (simp add: definedCIDRsInMergedCfg_def)
  qed
  have c: "sslPolicy c = None \<or> mergedSSLPolicy st0 = None \<or> mergedSSLPolicy st0 = sslPolicy c"
  proof (cases "\<forall>e\<in>set xs. sslPolicy (snd e) = None")
    case True
    with s show ?thesis by simp
  next
    case False
    then obtain e where e: "e \<in> set xs" "sslPolicy (snd e) \<noteq> None" by blast
    with s have m: "mergedSSLPolicy st0 = sslPolicy (snd e)" by simp
    show ?thesis
    proof (cases "sslPolicy c = None")
      case True
      then show ?thesis by simp
    next
      case False
      with sa e have "sslPolicy (snd e) = sslPolicy c" by (simp add: x)
      with m show ?thesis by simp
    qed
  qed
  from a b c have "\<exists>st. mergeIteration st0 (k, c) = Inr st" unfolding mergeIteration_Inr by simp
  with l show ?case unfolding x by (simp add: mergeLoop_snoc)
qed

lemma agree_mergeListenPortConfigs_Inr:
  assumes "xs \<noteq> []" "protocolsAgree xs" "length (cidrDefiners xs) \<le> 1" "sslPoliciesAgree xs"
  shows "\<exists>cfg. mergeListenPortConfigs t xs = Inr cfg"
proof -
  from agree_mergeLoop_Inr [OF assms(2-4)] obtain st where l: "mergeLoop initialMergeState xs = Inr st"
    by blast
  from assms(1) obtain e where "e \<in> set xs" by (cases xs) auto
  with mergeLoop_protocol_inv [OF l] have "mergedProtocol st = Some (protocol (snd e))" by simp
  from mergeFinish_Some [OF this] l show ?thesis by (simp add: mergeListenPortConfigs_def)
qed

lemma mergeLoop_stop:
  "mergeLoop st0 pre = Inr st \<Longrightarrow> mergeIteration st x = Inl err \<Longrightarrow>
     mergeLoop st0 (pre @ x # post) = Inl err"
  by (simp add: mergeLoop_append)

lemma mergeListenPortConfigs_stop:
  "mergeLoop initialMergeState pre = Inr st \<Longrightarrow> mergeIteration st x = Inl err \<Longrightarrow>
     mergeListenPortConfigs t (pre @ x # post) = Inl err"
  by (simp add: mergeListenPortConfigs_def mergeLoop_stop)



lemma conflict_labels_differ:
  "prefix ''conflicting sslPolicy, '' m \<Longrightarrow> \<not> prefix ''conflicting protocol'' m"
  by (auto elim!: prefixE)

lemma mergeLoop_Inl_cases:
  "mergeLoop initialMergeState xs = Inl err \<Longrightarrow>
     \<not> protocolsAgree xs \<or> prefix ''conflicting sslPolicy, '' (Error err)"
proof (induction xs rule: rev_induct)
  case Nil
  then show ?case by simp
next
  case (snoc x xs)
  obtain k c where x: "x = (k, c)" by (cases x)
  show ?case
  proof (cases "mergeLoop initialMergeState xs")
    case (Inl e)
    with snoc.prems have "mergeLoop initialMergeState xs = Inl err" by (simp add: mergeLoop_snoc)
    from snoc.IH [OF this] show ?thesis using protocolsAgree_snoc [of xs x] by blast
  next
    case (Inr st0)
    with snoc.prems have i: "mergeIteration st0 (k, c) = Inl err" by (simp add: mergeLoop_snoc x)
    from mergeIteration_Inl_cases [OF i] show ?thesis
    proof
      assume "\<exists>p. mergedProtocol st0 = Some p \<and> p \<noteq> protocol c \<and>
        prefix ''conflicting protocol, '' (Error err)"
      then obtain p where p: "mergedProtocol st0 = Some p" "p \<noteq> protocol c" by blast
      have "\<not> protocolsAgree (xs @ [x])"
      proof
        assume "protocolsAgree (xs @ [x])"
        from protocolsAgree_snoc [OF this] have a: "\<forall>e\<in>set xs. protocol (snd e) = protocol c"
          by (simp add: x)
        from p mergeLoop_protocol_inv [OF Inr] obtain e where e: "e \<in> set xs"
          by (cases xs) auto
        with mergeLoop_protocol_inv [OF Inr] have "mergedProtocol st0 = Some (protocol (snd e))"
          by blast
        moreover from a e have "protocol (snd e) = protocol c" by blast
        ultimately show False using p by simp
      qed
      then show ?thesis by simp
    next
      assume "prefix ''conflicting sslPolicy, '' (Error err)"
      then show ?thesis by simp
    qed
  qed
qed

text \<open>The definitions to unfold when a merge is evaluated on given members.\<close>

lemmas merge_eval =
  mergeListenPortConfigs_def mergeFinish_def mergeIteration_def mergeProtocol_def
  mergeInboundCIDRs_def mergeSSLPolicy_def definedCIDRsInCfg_def definedCIDRsInMergedCfg_def
  initialMergeState_def errors_Errorf_def errors_New_def fmt_NamespacedName_def fmt_strings_def
  StringValue_def zeroNamespacedName_def newBuildTask_def Let_def

lemma mergeIteration_Inl_fundamental:
  "mergeIteration st e = Inl err \<Longrightarrow> \<exists>m. err = fundamental m"
  by (cases e)
    (auto simp: mergeIteration_def mergeProtocol_Inl mergeInboundCIDRs_Inl mergeSSLPolicy_def
      errors_Errorf_def split: sum.splits if_splits)

lemma mergeLoop_Inl_fundamental:
  "mergeLoop st xs = Inl err \<Longrightarrow> \<exists>m. err = fundamental m"
  by (induction xs arbitrary: st) (auto split: sum.splits dest: mergeIteration_Inl_fundamental)

lemma mergeListenPortConfigs_Inl_fundamental:
  "mergeListenPortConfigs t xs = Inl err \<Longrightarrow> \<exists>m. err = fundamental m"
  unfolding mergeListenPortConfigs_Inl using mergeLoop_Inl_fundamental
  by (auto simp: errors_New_def)

lemma distinct_keys_entries: "distinct (map fst xs) \<Longrightarrow> distinct xs"
  by (simp add: distinct_map)

lemma cidrDefiners_card:
  assumes "distinct xs"
  shows "length (cidrDefiners xs) = card {e \<in> set xs. definedCIDRsInCfg (snd e)}"
proof -
  from assms have "distinct (cidrDefiners xs)" by (simp add: cidrDefiners_def)
  then have "length (cidrDefiners xs) = card (set (cidrDefiners xs))"
    by (simp add: distinct_card)
  also have "set (cidrDefiners xs) = {e \<in> set xs. definedCIDRsInCfg (snd e)}"
    by (simp add: cidrDefiners_def)
  finally show ?thesis .
qed

lemma protocolsAgree_set: "set xs = set ys \<Longrightarrow> protocolsAgree xs = protocolsAgree ys"
  by (simp add: protocolsAgree_def)

lemma sslPoliciesAgree_set: "set xs = set ys \<Longrightarrow> sslPoliciesAgree xs = sslPoliciesAgree ys"
  by (simp add: sslPoliciesAgree_def)

lemma merged_unique:
  assumes x: "mergeListenPortConfigs t xs = Inr cfg"
    and y: "mergeListenPortConfigs t ys = Inr cfg'"
    and s: "set xs = set ys"
  shows "cfg' = cfg"
proof -
  note fx = merged_fields [OF x]
  note fy = merged_fields [OF y, folded s]
  from fx(1) obtain e where e: "e \<in> set xs" by (cases xs) auto
  from fx(2) e have "protocol cfg = protocol (snd e)" by blast
  moreover from fy(2) e have "protocol cfg' = protocol (snd e)" by blast
  ultimately have p: "protocol cfg' = protocol cfg" by simp
  have c: "inboundCIDRv4s cfg' = inboundCIDRv4s cfg \<and> inboundCIDRv6s cfg' = inboundCIDRv6s cfg"
  proof (cases "\<forall>e\<in>set xs. \<not> definedCIDRsInCfg (snd e)")
    case True
    with fx(3) have "inboundCIDRv4s cfg = [''0.0.0.0/0''] \<and> inboundCIDRv6s cfg = [''::/0'']"
      by blast
    moreover from True fy(3) have "inboundCIDRv4s cfg' = [''0.0.0.0/0''] \<and>
      inboundCIDRv6s cfg' = [''::/0'']" by blast
    ultimately show ?thesis by simp
  next
    case False
    then obtain d where d: "d \<in> set xs" "definedCIDRsInCfg (snd d)" by blast
    from fx(4) d have "inboundCIDRv4s cfg = inboundCIDRv4s (snd d) \<and>
      inboundCIDRv6s cfg = inboundCIDRv6s (snd d)" by blast
    moreover from fy(4) d have "inboundCIDRv4s cfg' = inboundCIDRv4s (snd d) \<and>
      inboundCIDRv6s cfg' = inboundCIDRv6s (snd d)" by blast
    ultimately show ?thesis by simp
  qed
  have l: "sslPolicy cfg' = sslPolicy cfg"
  proof (cases "\<forall>e\<in>set xs. sslPolicy (snd e) = None")
    case True
    with fx(5) have "sslPolicy cfg =
      (if protocol cfg = ProtocolHTTPS then Some (defaultSSLPolicy t) else None)" by blast
    moreover from True fy(5) have "sslPolicy cfg' =
      (if protocol cfg' = ProtocolHTTPS then Some (defaultSSLPolicy t) else None)" by blast
    ultimately show ?thesis using p by simp
  next
    case False
    then obtain d where d: "d \<in> set xs" "sslPolicy (snd d) \<noteq> None" by blast
    from fx(6) d have "sslPolicy cfg = sslPolicy (snd d)" by blast
    moreover from fy(6) d have "sslPolicy cfg' = sslPolicy (snd d)" by blast
    ultimately show ?thesis by simp
  qed
  from fx(7) fy(7) have "tlsCerts cfg' = tlsCerts cfg" by simp
  with p c l show ?thesis by simp
qed

lemma merge_order_success:
  assumes dx: "distinct (map fst xs)" and dy: "distinct (map fst ys)" and s: "set xs = set ys"
    and x: "mergeListenPortConfigs t xs = Inr cfg"
  shows "mergeListenPortConfigs t ys = Inr cfg"
proof -
  from x obtain st where l: "mergeLoop initialMergeState xs = Inr st"
    unfolding mergeListenPortConfigs_Inr by blast
  note a = mergeLoop_Inr_agree [OF l]
  from a have "protocolsAgree ys" by (simp add: protocolsAgree_set [OF s])
  moreover from a have "sslPoliciesAgree ys" by (simp add: sslPoliciesAgree_set [OF s])
  moreover have "length (cidrDefiners ys) \<le> 1"
    using a cidrDefiners_card [OF distinct_keys_entries [OF dx]]
      cidrDefiners_card [OF distinct_keys_entries [OF dy]] s by simp
  moreover from merged_fields(1) [OF x] s have "ys \<noteq> []" by auto
  ultimately obtain cfg' where y: "mergeListenPortConfigs t ys = Inr cfg'"
    using agree_mergeListenPortConfigs_Inr [of ys t] by blast
  from merged_unique [OF x y s] y show ?thesis by simp
qed

lemma mergeProtocol_certs:
  "mergeProtocol (st\<lparr>mergedTLSCerts := X\<rparr>) k (c\<lparr>tlsCerts := ys\<rparr>) =
     (case mergeProtocol st k c of Inl e \<Rightarrow> Inl e | Inr s \<Rightarrow> Inr (s\<lparr>mergedTLSCerts := X\<rparr>))"
  by (simp add: mergeProtocol_def split: option.splits)

lemma mergeInboundCIDRs_certs:
  "mergeInboundCIDRs (st\<lparr>mergedTLSCerts := X\<rparr>) k (c\<lparr>tlsCerts := ys\<rparr>) =
     (case mergeInboundCIDRs st k c of Inl e \<Rightarrow> Inl e | Inr s \<Rightarrow> Inr (s\<lparr>mergedTLSCerts := X\<rparr>))"
  by (simp add: mergeInboundCIDRs_def definedCIDRsInCfg_def definedCIDRsInMergedCfg_def)

lemma mergeSSLPolicy_certs:
  "mergeSSLPolicy (st\<lparr>mergedTLSCerts := X\<rparr>) k (c\<lparr>tlsCerts := ys\<rparr>) =
     (case mergeSSLPolicy st k c of Inl e \<Rightarrow> Inl e | Inr s \<Rightarrow> Inr (s\<lparr>mergedTLSCerts := X\<rparr>))"
  by (simp add: mergeSSLPolicy_def)

lemma mergeIteration_certs:
  "mergeIteration (st\<lparr>mergedTLSCerts := X\<rparr>) (k, c\<lparr>tlsCerts := ys\<rparr>) =
     (case mergeIteration st (k, c) of
        Inl e \<Rightarrow> Inl e
      | Inr s \<Rightarrow> Inr (s\<lparr>mergedTLSCerts := X \<union> set ys\<rparr>))"
  by (simp add: mergeIteration_def mergeProtocol_certs mergeInboundCIDRs_certs
      mergeSSLPolicy_certs split: sum.splits)

lemma mergeLoop_strip:
  "mergeLoop (st\<lparr>mergedTLSCerts := X\<rparr>) (stripTLSCerts xs) =
     (case mergeLoop st xs of
        Inl e \<Rightarrow> Inl e
      | Inr s \<Rightarrow> Inr (s\<lparr>mergedTLSCerts := X\<rparr>))"
proof (induction xs arbitrary: st)
  case Nil
  then show ?case by (simp add: stripTLSCerts_def)
next
  case (Cons x xs)
  obtain k c where x: "x = (k, c)" by (cases x)
  have s: "stripTLSCerts ((k, c) # xs) = (k, c\<lparr>tlsCerts := []\<rparr>) # stripTLSCerts xs"
    by (simp add: stripTLSCerts_def)
  show ?case
  proof (cases "mergeIteration st (k, c)")
    case (Inl e)
    then show ?thesis unfolding x s by (simp add: mergeIteration_certs)
  next
    case (Inr s')
    then show ?thesis unfolding x s by (simp add: mergeIteration_certs Cons.IH)
  qed
qed

lemma mergeFinish_strip:
  "mergeFinish t (s\<lparr>mergedTLSCerts := {}\<rparr>) =
     (case mergeFinish t s of Inl e \<Rightarrow> Inl e | Inr cfg \<Rightarrow> Inr (cfg\<lparr>tlsCerts := []\<rparr>))"
  by (simp add: mergeFinish_def Let_def split: option.splits)

lemma mergeListenPortConfigs_strip:
  "mergeListenPortConfigs t (stripTLSCerts xs) =
     (case mergeListenPortConfigs t xs of
        Inl e \<Rightarrow> Inl e
      | Inr cfg \<Rightarrow> Inr (cfg\<lparr>tlsCerts := []\<rparr>))"
proof -
  have i: "initialMergeState = initialMergeState\<lparr>mergedTLSCerts := {}\<rparr>"
    by (simp add: initialMergeState_def)
  have "mergeLoop initialMergeState (stripTLSCerts xs) =
     (case mergeLoop initialMergeState xs of
        Inl e \<Rightarrow> Inl e
      | Inr s \<Rightarrow> Inr (s\<lparr>mergedTLSCerts := {}\<rparr>))"
    using mergeLoop_strip [where st = initialMergeState and X = "{}" and xs = xs] i by simp
  then show ?thesis
    by (simp add: mergeListenPortConfigs_def mergeFinish_strip split: sum.splits)
qed

lemma mergeIteration_protocol_conflict:
  "mergedProtocol st = Some p \<Longrightarrow> p \<noteq> protocol c \<Longrightarrow>
     mergeIteration st (k, c) =
       Inl (errors_Errorf ''conflicting protocol, %v: %v | %v: %v''
              [fmt_NamespacedName (mergedProtocolProvider st), fmt_Protocol p,
               fmt_NamespacedName k, fmt_Protocol (protocol c)])"
  by (simp add: mergeIteration_def mergeProtocol_def)

lemma Error_protocol_conflict:
  "Error (errors_Errorf ''conflicting protocol, %v: %v | %v: %v'' [a, b, c, d]) =
     ''conflicting protocol, '' @ a @ '': '' @ b @ '' | '' @ c @ '': '' @ d"
  unfolding errors_Errorf_def Error.simps Sprintf_protocol_fmt ..

section \<open>\<^verbatim>\<open>run\<close> and the synthesizer: auxiliary facts\<close>

lemma collect_first_error:
  "(\<forall>i\<in>set pre. \<exists>cfgs. computeIngressListenPortConfigByPort c i = Inr cfgs) \<Longrightarrow>
   computeIngressListenPortConfigByPort c ing = Inl err \<Longrightarrow>
   collectListenPortConfigs c agg (pre @ ing # post) = Inl err"
proof (induction pre arbitrary: agg)
  case Nil
  then show ?case by simp
next
  case (Cons i pre)
  from Cons.prems(1) obtain cfgs where "computeIngressListenPortConfigByPort c i = Inr cfgs"
    by auto
  moreover from Cons.prems(1)
  have "\<forall>i\<in>set pre. \<exists>cfgs. computeIngressListenPortConfigByPort c i = Inr cfgs" by simp
  ultimately show ?case using Cons.IH Cons.prems(2) by simp
qed

lemma synthesizeProtection_foreign:
  "resolveToken attrs (ResourceARN res) = Some arn \<Longrightarrow>
   GetProtection mgr (live st) arn = Inr (Some info) \<Longrightarrow>
   ProtectionName info \<noteq> protectionNameManaged \<Longrightarrow>
   synthesizeProtection mgr attrs st res = st\<lparr>calls := calls st @ [GetCall arn]\<rparr>"
  by (simp add: synthesizeProtection_def Let_def)

lemma fold_foreign:
  assumes "\<forall>res\<in>set desired. \<exists>arn info.
      resolveToken attrs (ResourceARN res) = Some arn \<and>
      GetProtection mgr m arn = Inr (Some info) \<and>
      ProtectionName info \<noteq> protectionNameManaged"
    and "live st = m"
  shows "live (fold (\<lambda>res st. synthesizeProtection mgr attrs st res) desired st) = m \<and>
         errs (fold (\<lambda>res st. synthesizeProtection mgr attrs st res) desired st) = errs st \<and>
         (\<forall>c\<in>set (calls (fold (\<lambda>res st. synthesizeProtection mgr attrs st res) desired st)).
            c \<in> set (calls st) \<or> (\<exists>a. c = GetCall a))"
  using assms
proof (induction desired arbitrary: st)
  case Nil
  then show ?case by simp
next
  case (Cons res desired)
  from Cons.prems(1) obtain arn info where
    r: "resolveToken attrs (ResourceARN res) = Some arn"
      "GetProtection mgr m arn = Inr (Some info)"
      "ProtectionName info \<noteq> protectionNameManaged" by auto
  let ?st1 = "st\<lparr>calls := calls st @ [GetCall arn]\<rparr>"
  from r Cons.prems(2) have s: "synthesizeProtection mgr attrs st res = ?st1"
    by (simp add: synthesizeProtection_foreign)
  from Cons.prems have
    "live (fold (\<lambda>res st. synthesizeProtection mgr attrs st res) desired ?st1) = m \<and>
     errs (fold (\<lambda>res st. synthesizeProtection mgr attrs st res) desired ?st1) = errs ?st1 \<and>
     (\<forall>c\<in>set (calls (fold (\<lambda>res st. synthesizeProtection mgr attrs st res) desired ?st1)).
        c \<in> set (calls ?st1) \<or> (\<exists>a. c = GetCall a))"
    by (intro Cons.IH) simp_all
  with s show ?case by auto
qed

lemma synthesizeProtection_keeps_foreign:
  assumes "\<forall>m'. GetProtection mgr m' arn = Inr (Some info)"
    and "ProtectionName info \<noteq> protectionNameManaged"
    and "\<forall>c\<in>set (calls st). \<not> mutatesARN arn c"
  shows "\<forall>c\<in>set (calls (synthesizeProtection mgr attrs st res)). \<not> mutatesARN arn c"
proof (cases "resolveToken attrs (ResourceARN res)")
  case None
  with assms(3) show ?thesis by (simp add: synthesizeProtection_def)
next
  case (Some a)
  show ?thesis
  proof (cases "a = arn")
    case True
    with Some assms(1,2) have "synthesizeProtection mgr attrs st res =
        st\<lparr>calls := calls st @ [GetCall arn]\<rparr>"
      by (simp add: synthesizeProtection_foreign)
    with assms(3) show ?thesis by simp
  next
    case False
    with Some assms(3) show ?thesis
      by (auto simp: synthesizeProtection_def Let_def
          split: sum.splits option.splits prod.splits if_splits)
  qed
qed

lemma fold_keeps_foreign:
  assumes "\<forall>m'. GetProtection mgr m' arn = Inr (Some info)"
    and "ProtectionName info \<noteq> protectionNameManaged"
    and "\<forall>c\<in>set (calls st). \<not> mutatesARN arn c"
  shows "\<forall>c\<in>set (calls (fold (\<lambda>res st. synthesizeProtection mgr attrs st res) desired st)).
           \<not> mutatesARN arn c"
  using assms(3)
proof (induction desired arbitrary: st)
  case Nil
  then show ?case by simp
next
  case (Cons res desired)
  from synthesizeProtection_keeps_foreign [OF assms(1,2) Cons.prems]
  have "\<forall>c\<in>set (calls (synthesizeProtection mgr attrs st res)). \<not> mutatesARN arn c" .
  from Cons.IH [OF this] show ?case by simp
qed

section \<open>The branch for a nil merged protocol\<close>

text \<open>
  C9. For every non-empty merge input the branch that returns \<^verbatim>\<open>should never happen\<close> is not
  reached: the first member visited always passes the three blocks from the initial state and
  sets the merged protocol, the protocol stays set for as long as the loop runs, so the check
  after the loop finds it set, and the function never returns that error.
\<close>

theorem nil_protocol_branch_unreachable:
  assumes "entries \<noteq> []"
  shows "(\<forall>st. mergeLoop initialMergeState entries = Inr st \<longrightarrow> mergedProtocol st \<noteq> None) \<and>
         (\<exists>st. mergeIteration initialMergeState (hd entries) = Inr st \<and>
               mergedProtocol st = Some (protocol (snd (hd entries)))) \<and>
         mergeListenPortConfigs t entries \<noteq> Inl (errors_New ''should never happen'')"
proof (intro conjI allI impI)
  fix st assume l: "mergeLoop initialMergeState entries = Inr st"
  from assms obtain e where "e \<in> set entries" by (cases entries) auto
  with mergeLoop_protocol_inv [OF l] show "mergedProtocol st \<noteq> None" by auto
next
  show "\<exists>st. mergeIteration initialMergeState (hd entries) = Inr st \<and>
             mergedProtocol st = Some (protocol (snd (hd entries)))"
    using mergeIteration_initial [of "fst (hd entries)" "snd (hd entries)"] by auto
next
  show "mergeListenPortConfigs t entries \<noteq> Inl (errors_New ''should never happen'')"
  proof
    assume "mergeListenPortConfigs t entries = Inl (errors_New ''should never happen'')"
    with assms have "mergeLoop initialMergeState entries = Inl (errors_New ''should never happen'')"
      by (simp add: mergeListenPortConfigs_Inl)
    then have "isConflict (errors_New ''should never happen'')" by (rule mergeLoop_Inl_conflict)
    with not_conflict_never_happen show False by simp
  qed
qed

theorem nil_protocol_branch_unreachable_witness:
  "[(\<lparr>Namespace = ''default'', Name = ''web''\<rparr>,
     \<lparr>protocol = ProtocolHTTP, inboundCIDRv4s = [], inboundCIDRv6s = [], sslPolicy = None,
      tlsCerts = []\<rparr>)] \<noteq> [] \<and>
   mergeListenPortConfigs (newBuildTask ([] :: Ingress list))
     [(\<lparr>Namespace = ''default'', Name = ''web''\<rparr>,
       \<lparr>protocol = ProtocolHTTP, inboundCIDRv4s = [], inboundCIDRv6s = [], sslPolicy = None,
        tlsCerts = []\<rparr>)] \<noteq> Inl (errors_New ''should never happen'')"
  using nil_protocol_branch_unreachable
    [of "[(\<lparr>Namespace = ''default'', Name = ''web''\<rparr>,
           \<lparr>protocol = ProtocolHTTP, inboundCIDRv4s = [], inboundCIDRv6s = [], sslPolicy = None,
            tlsCerts = []\<rparr>)]" "newBuildTask ([] :: Ingress list)"]
  by simp

section \<open>The gate on inbound CIDRs\<close>



section \<open>The protocol\<close>

text \<open>
  C2, as amended. The protocol of the member visited first becomes the candidate, with that
  member as its provider. The iteration that compares a member's protocol with a different
  candidate returns the conflict error whose message names the provider and its protocol,
  then the disagreeing member and its protocol; so does the merge when its loop reaches such
  a member, no member before it having ended the loop, and so does every merge of two
  members with different protocols. A merge input in which two members differ in the
  protocol always fails with a conflict error, which may be that of an earlier CIDR or SSL
  policy conflict. When all members agree on the protocol, no error of the merge is a
  protocol conflict.
\<close>

theorem protocol_conflict:
  "(mergeLoop initialMergeState ((k0, c0) # pre) = Inr st \<longrightarrow>
      mergedProtocol st = Some (protocol c0) \<and> mergedProtocolProvider st = k0 \<and>
      (protocol c \<noteq> protocol c0 \<longrightarrow>
        (\<exists>err. mergeListenPortConfigs t ((k0, c0) # pre @ (k, c) # post) = Inl err \<and>
           Error err = ''conflicting protocol, '' @ fmt_NamespacedName k0 @ '': '' @
             fmt_Protocol (protocol c0) @ '' | '' @ fmt_NamespacedName k @ '': '' @
             fmt_Protocol (protocol c)))) \<and>
   (mergedProtocol st' = Some p \<and> p \<noteq> protocol c \<longrightarrow>
      (\<exists>err. mergeIteration st' (k, c) = Inl err \<and>
         Error err = ''conflicting protocol, '' @ fmt_NamespacedName (mergedProtocolProvider st') @
           '': '' @ fmt_Protocol p @ '' | '' @ fmt_NamespacedName k @ '': '' @
           fmt_Protocol (protocol c))) \<and>
   (protocol c \<noteq> protocol c0 \<longrightarrow>
      (\<exists>err. mergeListenPortConfigs t [(k0, c0), (k, c)] = Inl err \<and>
         Error err = ''conflicting protocol, '' @ fmt_NamespacedName k0 @ '': '' @
           fmt_Protocol (protocol c0) @ '' | '' @ fmt_NamespacedName k @ '': '' @
           fmt_Protocol (protocol c))) \<and>
   ((k1, c1) \<in> set entries \<and> (k2, c2) \<in> set entries \<and> protocol c1 \<noteq> protocol c2 \<longrightarrow>
      (\<exists>err. mergeListenPortConfigs t entries = Inl err \<and> isConflict err)) \<and>
   (protocolsAgree entries \<longrightarrow>
      (\<forall>err. mergeListenPortConfigs t entries = Inl err \<longrightarrow>
         \<not> prefix ''conflicting protocol'' (Error err)))"
proof -
  have reach: "\<exists>err. mergeListenPortConfigs t ((k0, c0) # xs @ (k, c) # ys) = Inl err \<and>
           Error err = ''conflicting protocol, '' @ fmt_NamespacedName k0 @ '': '' @
             fmt_Protocol (protocol c0) @ '' | '' @ fmt_NamespacedName k @ '': '' @
             fmt_Protocol (protocol c)"
    if l: "mergeLoop initialMergeState ((k0, c0) # xs) = Inr s" and d: "protocol c \<noteq> protocol c0"
    for xs ys s
  proof -
    from mergeLoop_protocol_inv [OF l]
    have p: "mergedProtocol s = Some (protocol c0)" and q: "mergedProtocolProvider s = k0"
      by simp_all
    from mergeIteration_protocol_conflict [OF p d [symmetric], of k]
    have "mergeIteration s (k, c) =
       Inl (errors_Errorf ''conflicting protocol, %v: %v | %v: %v''
              [fmt_NamespacedName k0, fmt_Protocol (protocol c0),
               fmt_NamespacedName k, fmt_Protocol (protocol c)])" by (simp add: q)
    from mergeListenPortConfigs_stop [OF l this]
    have "mergeListenPortConfigs t (((k0, c0) # xs) @ (k, c) # ys) =
       Inl (errors_Errorf ''conflicting protocol, %v: %v | %v: %v''
              [fmt_NamespacedName k0, fmt_Protocol (protocol c0),
               fmt_NamespacedName k, fmt_Protocol (protocol c)])" .
    then show ?thesis by (simp add: Error_protocol_conflict)
  qed
  show ?thesis
  proof (intro conjI impI allI)
    assume l: "mergeLoop initialMergeState ((k0, c0) # pre) = Inr st"
    from mergeLoop_protocol_inv [OF l]
    show "mergedProtocol st = Some (protocol c0)" and "mergedProtocolProvider st = k0"
      by simp_all
    assume "protocol c \<noteq> protocol c0"
    with l show "\<exists>err. mergeListenPortConfigs t ((k0, c0) # pre @ (k, c) # post) = Inl err \<and>
           Error err = ''conflicting protocol, '' @ fmt_NamespacedName k0 @ '': '' @
             fmt_Protocol (protocol c0) @ '' | '' @ fmt_NamespacedName k @ '': '' @
             fmt_Protocol (protocol c)" by (rule reach)
  next
    assume "mergedProtocol st' = Some p \<and> p \<noteq> protocol c"
    then have "mergeIteration st' (k, c) =
       Inl (errors_Errorf ''conflicting protocol, %v: %v | %v: %v''
              [fmt_NamespacedName (mergedProtocolProvider st'), fmt_Protocol p,
               fmt_NamespacedName k, fmt_Protocol (protocol c)])"
      by (simp add: mergeIteration_protocol_conflict)
    then show "\<exists>err. mergeIteration st' (k, c) = Inl err \<and>
         Error err = ''conflicting protocol, '' @ fmt_NamespacedName (mergedProtocolProvider st') @
           '': '' @ fmt_Protocol p @ '' | '' @ fmt_NamespacedName k @ '': '' @
           fmt_Protocol (protocol c)" by (simp add: Error_protocol_conflict)
  next
    assume d: "protocol c \<noteq> protocol c0"
    from mergeIteration_initial [of k0 c0] obtain s where
      "mergeIteration initialMergeState (k0, c0) = Inr s" by blast
    then have "mergeLoop initialMergeState ((k0, c0) # []) = Inr s" by simp
    from reach [OF this d, of "[]"]
    show "\<exists>err. mergeListenPortConfigs t [(k0, c0), (k, c)] = Inl err \<and>
         Error err = ''conflicting protocol, '' @ fmt_NamespacedName k0 @ '': '' @
           fmt_Protocol (protocol c0) @ '' | '' @ fmt_NamespacedName k @ '': '' @
           fmt_Protocol (protocol c)" by simp
  next
    assume a: "(k1, c1) \<in> set entries \<and> (k2, c2) \<in> set entries \<and> protocol c1 \<noteq> protocol c2"
    have n: "\<not> protocolsAgree entries"
    proof
      assume "protocolsAgree entries"
      with a have "protocol (snd (k1, c1)) = protocol (snd (k2, c2))"
        unfolding protocolsAgree_def by blast
      with a show False by simp
    qed
    show "\<exists>err. mergeListenPortConfigs t entries = Inl err \<and> isConflict err"
    proof (cases "mergeLoop initialMergeState entries")
      case (Inl err)
      with mergeLoop_Inl_conflict [OF Inl] show ?thesis by (simp add: mergeListenPortConfigs_def)
    next
      case (Inr s)
      from mergeLoop_Inr_agree [OF Inr] n show ?thesis by simp
    qed
  next
    fix err
    assume a: "protocolsAgree entries" and e: "mergeListenPortConfigs t entries = Inl err"
    show "\<not> prefix ''conflicting protocol'' (Error err)"
    proof (cases "entries = []")
      case True
      with e have "err = errors_New ''should never happen''"
        by (simp add: mergeListenPortConfigs_Inl)
      then show ?thesis by (simp add: errors_New_def)
    next
      case False
      with e have "mergeLoop initialMergeState entries = Inl err"
        by (simp add: mergeListenPortConfigs_Inl)
      from mergeLoop_Inl_cases [OF this] a show ?thesis by (simp add: conflict_labels_differ)
    qed
  qed
qed

theorem protocol_conflict_witness:
  "mergeLoop initialMergeState
     [(\<lparr>Namespace = ''default'', Name = ''a''\<rparr>,
       \<lparr>protocol = ProtocolHTTP, inboundCIDRv4s = [], inboundCIDRv6s = [],
        sslPolicy = None, tlsCerts = []\<rparr>)]
   = Inr \<lparr>mergedProtocol = Some ProtocolHTTP,
          mergedProtocolProvider = \<lparr>Namespace = ''default'', Name = ''a''\<rparr>,
          mergedInboundCIDRv4s = [], mergedInboundCIDRv6s = [],
          mergedInboundCIDRsProvider = zeroNamespacedName,
          mergedSSLPolicy = None, mergedSSLPolicyProvider = zeroNamespacedName,
          mergedTLSCerts = {}\<rparr> \<and>
   mergeListenPortConfigs (newBuildTask ([] :: Ingress list))
     [(\<lparr>Namespace = ''default'', Name = ''a''\<rparr>,
       \<lparr>protocol = ProtocolHTTP, inboundCIDRv4s = [], inboundCIDRv6s = [],
        sslPolicy = None, tlsCerts = []\<rparr>),
      (\<lparr>Namespace = ''default'', Name = ''b''\<rparr>,
       \<lparr>protocol = ProtocolHTTPS, inboundCIDRv4s = [], inboundCIDRv6s = [],
        sslPolicy = None, tlsCerts = []\<rparr>)]
   = Inl (fundamental ''conflicting protocol, default/a: HTTP | default/b: HTTPS'')"
  using protocol_conflict
    [where ?k0.0 = "\<lparr>Namespace = ''default'', Name = ''a''\<rparr>"
       and ?c0.0 = "\<lparr>protocol = ProtocolHTTP, inboundCIDRv4s = [], inboundCIDRv6s = [],
          sslPolicy = None, tlsCerts = []\<rparr>"
       and pre = "[]"
       and st = "\<lparr>mergedProtocol = Some ProtocolHTTP,
          mergedProtocolProvider = \<lparr>Namespace = ''default'', Name = ''a''\<rparr>,
          mergedInboundCIDRv4s = [], mergedInboundCIDRv6s = [],
          mergedInboundCIDRsProvider = zeroNamespacedName,
          mergedSSLPolicy = None, mergedSSLPolicyProvider = zeroNamespacedName,
          mergedTLSCerts = {}\<rparr>"
       and c = "\<lparr>protocol = ProtocolHTTPS, inboundCIDRv4s = [], inboundCIDRv6s = [],
          sslPolicy = None, tlsCerts = []\<rparr>"
       and t = "newBuildTask ([] :: Ingress list)"
       and k = "\<lparr>Namespace = ''default'', Name = ''b''\<rparr>"
       and post = "[]"]
  by (simp add: merge_eval)

text \<open>
  The claim as first stated, the error naming both members and both protocols whenever a later
  member's protocol differs from the candidate, fails: the members \<open>a\<close> and \<open>b\<close> agree on
  the protocol and define different CIDRs, and \<open>c\<close> has another protocol. Visited in this
  order, the merge returns the CIDR error at \<open>b\<close>, before the protocol of \<open>c\<close> is
  compared: its message names neither \<open>a\<close> nor \<open>c\<close> and holds no protocol.
\<close>

theorem protocol_conflict_preempted_counterexample:
  "protocol \<lparr>protocol = ProtocolHTTPS, inboundCIDRv4s = [], inboundCIDRv6s = [],
             sslPolicy = None, tlsCerts = []\<rparr> \<noteq>
   protocol \<lparr>protocol = ProtocolHTTP, inboundCIDRv4s = [''10.0.0.0/8''], inboundCIDRv6s = [],
             sslPolicy = None, tlsCerts = []\<rparr> \<and>
   mergeListenPortConfigs (newBuildTask ([] :: Ingress list))
     [(\<lparr>Namespace = ''default'', Name = ''a''\<rparr>,
       \<lparr>protocol = ProtocolHTTP, inboundCIDRv4s = [''10.0.0.0/8''], inboundCIDRv6s = [],
        sslPolicy = None, tlsCerts = []\<rparr>),
      (\<lparr>Namespace = ''default'', Name = ''b''\<rparr>,
       \<lparr>protocol = ProtocolHTTP, inboundCIDRv4s = [''192.168.0.0/16''], inboundCIDRv6s = [],
        sslPolicy = None, tlsCerts = []\<rparr>),
      (\<lparr>Namespace = ''default'', Name = ''c''\<rparr>,
       \<lparr>protocol = ProtocolHTTPS, inboundCIDRv4s = [], inboundCIDRv6s = [],
        sslPolicy = None, tlsCerts = []\<rparr>)]
   = Inl (fundamental
       ''conflicting sslPolicy, /: [10.0.0.0/8], [] | default/b: [192.168.0.0/16], []'') \<and>
   \<not> sublist (fmt_NamespacedName \<lparr>Namespace = ''default'', Name = ''a''\<rparr>)
       (Error (fundamental
         ''conflicting sslPolicy, /: [10.0.0.0/8], [] | default/b: [192.168.0.0/16], []'')) \<and>
   \<not> sublist (fmt_NamespacedName \<lparr>Namespace = ''default'', Name = ''c''\<rparr>)
       (Error (fundamental
         ''conflicting sslPolicy, /: [10.0.0.0/8], [] | default/b: [192.168.0.0/16], []'')) \<and>
   \<not> sublist (fmt_Protocol ProtocolHTTP)
       (Error (fundamental
         ''conflicting sslPolicy, /: [10.0.0.0/8], [] | default/b: [192.168.0.0/16], []''))"
  (is "?D \<and> ?M \<and> ?A \<and> ?C \<and> ?P")
proof (intro conjI)
  show ?D by simp
  show ?M by code_simp
  show ?A by code_simp
  show ?C by code_simp
  show ?P by code_simp
qed

section \<open>The defaults after the loop\<close>

text \<open>
  C7. In a successful merge in which no member defines inbound CIDRs, the merged lists are
  exactly \<^verbatim>\<open>0.0.0.0/0\<close> and \<^verbatim>\<open>::/0\<close>. In a successful merge whose protocol is HTTPS and in
  which no member gives an SSL policy, the merged policy is the task's default, which is
  \<^verbatim>\<open>ELBSecurityPolicy-2016-08\<close> in the task that \<^verbatim>\<open>Build\<close> constructs.
\<close>

theorem post_merge_defaults:
  "mergeListenPortConfigs t entries = Inr merged \<longrightarrow>
     ((\<forall>e\<in>set entries. \<not> definedCIDRsInCfg (snd e)) \<longrightarrow>
        inboundCIDRv4s merged = [''0.0.0.0/0''] \<and> inboundCIDRv6s merged = [''::/0'']) \<and>
     (protocol merged = ProtocolHTTPS \<and> (\<forall>e\<in>set entries. sslPolicy (snd e) = None) \<longrightarrow>
        sslPolicy merged = Some (defaultSSLPolicy t) \<and>
        (t = newBuildTask members \<longrightarrow> sslPolicy merged = Some ''ELBSecurityPolicy-2016-08''))"
proof (intro impI conjI)
  assume m: "mergeListenPortConfigs t entries = Inr merged"
  {
    assume "\<forall>e\<in>set entries. \<not> definedCIDRsInCfg (snd e)"
    with merged_fields(3) [OF m]
    show "inboundCIDRv4s merged = [''0.0.0.0/0'']" "inboundCIDRv6s merged = [''::/0'']"
      by simp_all
  }
  assume "protocol merged = ProtocolHTTPS \<and> (\<forall>e\<in>set entries. sslPolicy (snd e) = None)"
  with merged_fields(5) [OF m] show s: "sslPolicy merged = Some (defaultSSLPolicy t)" by simp
  assume "t = newBuildTask members"
  with s show "sslPolicy merged = Some ''ELBSecurityPolicy-2016-08''"
    by (simp add: newBuildTask_def)
qed

theorem post_merge_defaults_witness:
  "mergeListenPortConfigs (newBuildTask ([] :: Ingress list))
     [(\<lparr>Namespace = ''default'', Name = ''a''\<rparr>,
       \<lparr>protocol = ProtocolHTTPS, inboundCIDRv4s = [], inboundCIDRv6s = [],
        sslPolicy = None, tlsCerts = [''arn:cert/1'']\<rparr>)]
   = Inr \<lparr>protocol = ProtocolHTTPS, inboundCIDRv4s = [''0.0.0.0/0''], inboundCIDRv6s = [''::/0''],
          sslPolicy = Some ''ELBSecurityPolicy-2016-08'', tlsCerts = [''arn:cert/1'']\<rparr>"
  using post_merge_defaults
    [of "newBuildTask ([] :: Ingress list)"
        "[(\<lparr>Namespace = ''default'', Name = ''a''\<rparr>,
           \<lparr>protocol = ProtocolHTTPS, inboundCIDRv4s = [], inboundCIDRv6s = [],
            sslPolicy = None, tlsCerts = [''arn:cert/1'']\<rparr>)]"
        "\<lparr>protocol = ProtocolHTTPS, inboundCIDRv4s = [''0.0.0.0/0''], inboundCIDRv6s = [''::/0''],
          sslPolicy = Some ''ELBSecurityPolicy-2016-08'', tlsCerts = [''arn:cert/1'']\<rparr>"
        "[]"]
  by (simp add: merge_eval)

section \<open>The label of the CIDR conflict\<close>

text \<open>
  C10. When the CIDR block rejects a second non-empty definition, the message of its error
  starts with \<^verbatim>\<open>conflicting sslPolicy\<close>, the label the SSL policy block uses for its own
  conflicts, while the values it lists are CIDR lists: those adopted before and those of the
  rejected member. In a merge, the adopted lists are those of the member that defined them,
  and the provider printed before them is the zero name \<^verbatim>\<open>/\<close>.
\<close>

theorem cidr_conflict_label:
  "(mergeInboundCIDRs st ingKey cfg = Inl err \<longrightarrow>
      definedCIDRsInCfg cfg \<and> definedCIDRsInMergedCfg st \<and>
      prefix ''conflicting sslPolicy'' (Error err) \<and>
      Error err = ''conflicting sslPolicy, '' @ fmt_NamespacedName (mergedInboundCIDRsProvider st) @
        '': '' @ fmt_strings (mergedInboundCIDRv4s st) @ '', '' @
        fmt_strings (mergedInboundCIDRv6s st) @ '' | '' @ fmt_NamespacedName ingKey @ '': '' @
        fmt_strings (inboundCIDRv4s cfg) @ '', '' @ fmt_strings (inboundCIDRv6s cfg)) \<and>
   (mergeSSLPolicy st ingKey cfg = Inl err' \<longrightarrow> prefix ''conflicting sslPolicy'' (Error err')) \<and>
   (mergeLoop initialMergeState pre = Inr st' \<and> (k1, c1) \<in> set pre \<and> definedCIDRsInCfg c1 \<and>
    definedCIDRsInCfg c2 \<and> protocol c2 = protocol c1 \<longrightarrow>
      (\<exists>e. mergeListenPortConfigs t (pre @ (k2, c2) # post) = Inl e \<and>
         prefix ''conflicting sslPolicy'' (Error e) \<and>
         Error e = ''conflicting sslPolicy, /: '' @ fmt_strings (inboundCIDRv4s c1) @ '', '' @
           fmt_strings (inboundCIDRv6s c1) @ '' | '' @ fmt_NamespacedName k2 @ '': '' @
           fmt_strings (inboundCIDRv4s c2) @ '', '' @ fmt_strings (inboundCIDRv6s c2)))"
proof (intro conjI impI)
  assume a: "mergeInboundCIDRs st ingKey cfg = Inl err"
  then show "definedCIDRsInCfg cfg" "definedCIDRsInMergedCfg st"
    by (simp_all add: mergeInboundCIDRs_Inl)
  from a show m: "Error err = ''conflicting sslPolicy, '' @
        fmt_NamespacedName (mergedInboundCIDRsProvider st) @
        '': '' @ fmt_strings (mergedInboundCIDRv4s st) @ '', '' @
        fmt_strings (mergedInboundCIDRv6s st) @ '' | '' @ fmt_NamespacedName ingKey @ '': '' @
        fmt_strings (inboundCIDRv4s cfg) @ '', '' @ fmt_strings (inboundCIDRv6s cfg)"
    unfolding mergeInboundCIDRs_Inl errors_Errorf_def Sprintf_cidrs_fmt by simp
  show "prefix ''conflicting sslPolicy'' (Error err)" unfolding m by simp
next
  assume "mergeSSLPolicy st ingKey cfg = Inl err'"
  from mergeSSLPolicy_Inl [OF this] show "prefix ''conflicting sslPolicy'' (Error err')"
    by (auto elim!: prefixE)
next
  assume a: "mergeLoop initialMergeState pre = Inr st' \<and> (k1, c1) \<in> set pre \<and>
    definedCIDRsInCfg c1 \<and> definedCIDRsInCfg c2 \<and> protocol c2 = protocol c1"
  then have l: "mergeLoop initialMergeState pre = Inr st'" by simp
  note p = mergeLoop_protocol_inv [OF l]
  note c = mergeLoop_cidrs_inv [OF l]
  note z = mergeLoop_provider_inv [OF l]
  from a p have mp: "mergedProtocol st' = Some (protocol c2)" by auto
  from a c have v: "mergedInboundCIDRv4s st' = inboundCIDRv4s c1"
    "mergedInboundCIDRv6s st' = inboundCIDRv6s c1" by auto
  with a have dm: "definedCIDRsInMergedCfg st'"
    by (simp add: definedCIDRsInMergedCfg_def definedCIDRsInCfg_def)
  let ?e = "errors_Errorf ''conflicting sslPolicy, %v: %v, %v | %v: %v, %v''
             [fmt_NamespacedName zeroNamespacedName,
              fmt_strings (inboundCIDRv4s c1), fmt_strings (inboundCIDRv6s c1),
              fmt_NamespacedName k2,
              fmt_strings (inboundCIDRv4s c2), fmt_strings (inboundCIDRv6s c2)]"
  from mp have "mergeProtocol st' k2 c2 = Inr st'" by (simp add: mergeProtocol_def)
  moreover from a dm v z have "mergeInboundCIDRs st' k2 c2 = Inl ?e"
    by (simp add: mergeInboundCIDRs_Inl)
  ultimately have "mergeIteration st' (k2, c2) = Inl ?e" by (simp add: mergeIteration_def)
  from mergeListenPortConfigs_stop [OF l this]
  have r: "mergeListenPortConfigs t (pre @ (k2, c2) # post) = Inl ?e" .
  have m: "Error ?e = ''conflicting sslPolicy, /: '' @ fmt_strings (inboundCIDRv4s c1) @ '', '' @
           fmt_strings (inboundCIDRv6s c1) @ '' | '' @ fmt_NamespacedName k2 @ '': '' @
           fmt_strings (inboundCIDRv4s c2) @ '', '' @ fmt_strings (inboundCIDRv6s c2)"
    unfolding errors_Errorf_def Error.simps Sprintf_cidrs_fmt
    by (simp add: fmt_NamespacedName_def zeroNamespacedName_def)
  have "prefix ''conflicting sslPolicy'' (Error ?e)" unfolding m by simp
  with r m show "\<exists>e. mergeListenPortConfigs t (pre @ (k2, c2) # post) = Inl e \<and>
         prefix ''conflicting sslPolicy'' (Error e) \<and>
         Error e = ''conflicting sslPolicy, /: '' @ fmt_strings (inboundCIDRv4s c1) @ '', '' @
           fmt_strings (inboundCIDRv6s c1) @ '' | '' @ fmt_NamespacedName k2 @ '': '' @
           fmt_strings (inboundCIDRv4s c2) @ '', '' @ fmt_strings (inboundCIDRv6s c2)"
    by blast
qed

theorem cidr_conflict_label_witness:
  "mergeLoop initialMergeState
     [(\<lparr>Namespace = ''default'', Name = ''a''\<rparr>,
       \<lparr>protocol = ProtocolHTTP, inboundCIDRv4s = [''10.0.0.0/8''], inboundCIDRv6s = [],
        sslPolicy = None, tlsCerts = []\<rparr>)]
   = Inr \<lparr>mergedProtocol = Some ProtocolHTTP,
          mergedProtocolProvider = \<lparr>Namespace = ''default'', Name = ''a''\<rparr>,
          mergedInboundCIDRv4s = [''10.0.0.0/8''], mergedInboundCIDRv6s = [],
          mergedInboundCIDRsProvider = zeroNamespacedName,
          mergedSSLPolicy = None, mergedSSLPolicyProvider = zeroNamespacedName,
          mergedTLSCerts = {}\<rparr> \<and>
   mergeListenPortConfigs (newBuildTask ([] :: Ingress list))
     [(\<lparr>Namespace = ''default'', Name = ''a''\<rparr>,
       \<lparr>protocol = ProtocolHTTP, inboundCIDRv4s = [''10.0.0.0/8''], inboundCIDRv6s = [],
        sslPolicy = None, tlsCerts = []\<rparr>),
      (\<lparr>Namespace = ''default'', Name = ''b''\<rparr>,
       \<lparr>protocol = ProtocolHTTP, inboundCIDRv4s = [''192.168.0.0/16''], inboundCIDRv6s = [''fd00::/8''],
        sslPolicy = None, tlsCerts = []\<rparr>)]
   = Inl (fundamental
       ''conflicting sslPolicy, /: [10.0.0.0/8], [] | default/b: [192.168.0.0/16], [fd00::/8]'')"
  using cidr_conflict_label
    [of "initialMergeState" "\<lparr>Namespace = ''default'', Name = ''a''\<rparr>"
        "\<lparr>protocol = ProtocolHTTP, inboundCIDRv4s = [], inboundCIDRv6s = [],
          sslPolicy = None, tlsCerts = []\<rparr>"
        "fundamental []" "fundamental []"
        "[(\<lparr>Namespace = ''default'', Name = ''a''\<rparr>,
           \<lparr>protocol = ProtocolHTTP, inboundCIDRv4s = [''10.0.0.0/8''], inboundCIDRv6s = [],
            sslPolicy = None, tlsCerts = []\<rparr>)]"
        "\<lparr>mergedProtocol = Some ProtocolHTTP,
          mergedProtocolProvider = \<lparr>Namespace = ''default'', Name = ''a''\<rparr>,
          mergedInboundCIDRv4s = [''10.0.0.0/8''], mergedInboundCIDRv6s = [],
          mergedInboundCIDRsProvider = zeroNamespacedName,
          mergedSSLPolicy = None, mergedSSLPolicyProvider = zeroNamespacedName,
          mergedTLSCerts = {}\<rparr>"
        "\<lparr>Namespace = ''default'', Name = ''a''\<rparr>"
        "\<lparr>protocol = ProtocolHTTP, inboundCIDRv4s = [''10.0.0.0/8''], inboundCIDRv6s = [],
          sslPolicy = None, tlsCerts = []\<rparr>"
        "\<lparr>protocol = ProtocolHTTP, inboundCIDRv4s = [''192.168.0.0/16''],
          inboundCIDRv6s = [''fd00::/8''], sslPolicy = None, tlsCerts = []\<rparr>"
        "newBuildTask ([] :: Ingress list)"
        "\<lparr>Namespace = ''default'', Name = ''b''\<rparr>"
        "[]"]
  by (simp add: merge_eval)

section \<open>The error for an input without members\<close>

text \<open>
  C5, as amended. Every member carries a protocol, so no member supplies one exactly when the
  input has no member. The merge then returns the error \<^verbatim>\<open>should never happen\<close>. It is an
  error of the same kind as the conflict errors, message-only; what tells it from them is
  the message alone, which does not start with \<^verbatim>\<open>conflicting\<close> as the message of every
  error for a non-empty input does.
\<close>

theorem invariant_violation_error:
  "mergeListenPortConfigs t [] = Inl (errors_New ''should never happen'') \<and>
   \<not> isConflict (errors_New ''should never happen'') \<and>
   (mergeListenPortConfigs t entries = Inl err \<longrightarrow>
      sameErrorKind err (errors_New ''should never happen'') \<and>
      (entries \<noteq> [] \<longrightarrow> isConflict err \<and> Error err \<noteq> ''should never happen''))"
proof (intro conjI impI)
  show "mergeListenPortConfigs t [] = Inl (errors_New ''should never happen'')"
    by (simp add: mergeListenPortConfigs_Inl)
  show "\<not> isConflict (errors_New ''should never happen'')"
    by (rule not_conflict_never_happen)
next
  assume e: "mergeListenPortConfigs t entries = Inl err"
  from mergeListenPortConfigs_Inl_fundamental [OF e]
  show "sameErrorKind err (errors_New ''should never happen'')"
    by (auto simp: errors_New_def)
  assume "entries \<noteq> []"
  with e have "mergeLoop initialMergeState entries = Inl err"
    by (simp add: mergeListenPortConfigs_Inl)
  then show c: "isConflict err" by (rule mergeLoop_Inl_conflict)
  then show "Error err \<noteq> ''should never happen''" by (auto simp: isConflict_def)
qed

theorem invariant_violation_error_witness:
  "mergeListenPortConfigs (newBuildTask ([] :: Ingress list))
     [(\<lparr>Namespace = ''default'', Name = ''a''\<rparr>,
       \<lparr>protocol = ProtocolHTTP, inboundCIDRv4s = [], inboundCIDRv6s = [],
        sslPolicy = None, tlsCerts = []\<rparr>),
      (\<lparr>Namespace = ''default'', Name = ''b''\<rparr>,
       \<lparr>protocol = ProtocolHTTPS, inboundCIDRv4s = [], inboundCIDRv6s = [],
        sslPolicy = None, tlsCerts = []\<rparr>)]
   = Inl (fundamental ''conflicting protocol, default/a: HTTP | default/b: HTTPS'') \<and>
   isConflict (fundamental ''conflicting protocol, default/a: HTTP | default/b: HTTPS'') \<and>
   mergeListenPortConfigs (newBuildTask ([] :: Ingress list)) []
   = Inl (fundamental ''should never happen'')"
  using invariant_violation_error
    [of "newBuildTask ([] :: Ingress list)"
        "[(\<lparr>Namespace = ''default'', Name = ''a''\<rparr>,
           \<lparr>protocol = ProtocolHTTP, inboundCIDRv4s = [], inboundCIDRv6s = [],
            sslPolicy = None, tlsCerts = []\<rparr>),
          (\<lparr>Namespace = ''default'', Name = ''b''\<rparr>,
           \<lparr>protocol = ProtocolHTTPS, inboundCIDRv4s = [], inboundCIDRv6s = [],
            sslPolicy = None, tlsCerts = []\<rparr>)]"
        "fundamental ''conflicting protocol, default/a: HTTP | default/b: HTTPS''"]
  by (simp add: merge_eval)

text \<open>
  The claim as first stated, a kind distinct from that of the conflict errors, fails: the
  error for no members and the error for two members that disagree on the protocol are of
  the same kind.
\<close>

theorem invariant_violation_kind_counterexample:
  "mergeListenPortConfigs (newBuildTask ([] :: Ingress list)) []
   = Inl (fundamental ''should never happen'') \<and>
   mergeListenPortConfigs (newBuildTask ([] :: Ingress list))
     [(\<lparr>Namespace = ''default'', Name = ''a''\<rparr>,
       \<lparr>protocol = ProtocolHTTP, inboundCIDRv4s = [], inboundCIDRv6s = [],
        sslPolicy = None, tlsCerts = []\<rparr>),
      (\<lparr>Namespace = ''default'', Name = ''b''\<rparr>,
       \<lparr>protocol = ProtocolHTTPS, inboundCIDRv4s = [], inboundCIDRv6s = [],
        sslPolicy = None, tlsCerts = []\<rparr>)]
   = Inl (fundamental ''conflicting protocol, default/a: HTTP | default/b: HTTPS'') \<and>
   sameErrorKind (fundamental ''should never happen'')
     (fundamental ''conflicting protocol, default/a: HTTP | default/b: HTTPS'')"
  by (simp add: merge_eval)

section \<open>The TLS certificates\<close>

text \<open>
  C8. In a successful merge the merged certificates are exactly the union of the members'
  certificates, each once; every other order of the same members gives the same list. The
  certificates never cause a conflict: a merge fails with an error exactly when the merge
  of the same members without their certificates fails with that error.
\<close>

theorem tls_certs_union:
  "(mergeListenPortConfigs t entries = Inr merged \<longrightarrow>
      set (tlsCerts merged) = (\<Union>e\<in>set entries. set (tlsCerts (snd e))) \<and>
      distinct (tlsCerts merged) \<and>
      (distinct (map fst entries) \<and> distinct (map fst entries') \<and> set entries' = set entries \<longrightarrow>
         (\<exists>merged'. mergeListenPortConfigs t entries' = Inr merged' \<and>
            tlsCerts merged' = tlsCerts merged))) \<and>
   (mergeListenPortConfigs t entries = Inl err \<longleftrightarrow>
      mergeListenPortConfigs t (stripTLSCerts entries) = Inl err)"
proof (intro conjI impI)
  assume m: "mergeListenPortConfigs t entries = Inr merged"
  note c = merged_fields(7) [OF m]
  have f: "finite (\<Union>e\<in>set entries. set (tlsCerts (snd e)))" by simp
  from c f show "set (tlsCerts merged) = (\<Union>e\<in>set entries. set (tlsCerts (snd e)))"
    by (simp only: set_sorted_list_of_set)
  from c show "distinct (tlsCerts merged)" by (simp only: distinct_sorted_list_of_set)
  assume "distinct (map fst entries) \<and> distinct (map fst entries') \<and> set entries' = set entries"
  then have "mergeListenPortConfigs t entries' = Inr merged"
    using merge_order_success [of entries entries' t merged] m by simp
  then show "\<exists>merged'. mergeListenPortConfigs t entries' = Inr merged' \<and>
            tlsCerts merged' = tlsCerts merged" by simp
next
  show "mergeListenPortConfigs t entries = Inl err \<longleftrightarrow>
      mergeListenPortConfigs t (stripTLSCerts entries) = Inl err"
    by (simp add: mergeListenPortConfigs_strip split: sum.splits)
qed

theorem tls_certs_union_witness:
  "mergeListenPortConfigs (newBuildTask ([] :: Ingress list))
     [(\<lparr>Namespace = ''default'', Name = ''a''\<rparr>,
       \<lparr>protocol = ProtocolHTTPS, inboundCIDRv4s = [], inboundCIDRv6s = [],
        sslPolicy = None, tlsCerts = [''x'']\<rparr>),
      (\<lparr>Namespace = ''default'', Name = ''b''\<rparr>,
       \<lparr>protocol = ProtocolHTTPS, inboundCIDRv4s = [], inboundCIDRv6s = [],
        sslPolicy = None, tlsCerts = [''y'', ''x'']\<rparr>)]
   = Inr \<lparr>protocol = ProtocolHTTPS, inboundCIDRv4s = [''0.0.0.0/0''], inboundCIDRv6s = [''::/0''],
          sslPolicy = Some ''ELBSecurityPolicy-2016-08'', tlsCerts = [''x'', ''y'']\<rparr> \<and>
   mergeListenPortConfigs (newBuildTask ([] :: Ingress list))
     [(\<lparr>Namespace = ''default'', Name = ''b''\<rparr>,
       \<lparr>protocol = ProtocolHTTPS, inboundCIDRv4s = [], inboundCIDRv6s = [],
        sslPolicy = None, tlsCerts = [''y'', ''x'']\<rparr>),
      (\<lparr>Namespace = ''default'', Name = ''a''\<rparr>,
       \<lparr>protocol = ProtocolHTTPS, inboundCIDRv4s = [], inboundCIDRv6s = [],
        sslPolicy = None, tlsCerts = [''x'']\<rparr>)]
   = Inr \<lparr>protocol = ProtocolHTTPS, inboundCIDRv4s = [''0.0.0.0/0''], inboundCIDRv6s = [''::/0''],
          sslPolicy = Some ''ELBSecurityPolicy-2016-08'', tlsCerts = [''x'', ''y'']\<rparr>"
proof -
  have e: "mergeListenPortConfigs (newBuildTask ([] :: Ingress list))
     [(\<lparr>Namespace = ''default'', Name = ''a''\<rparr>,
       \<lparr>protocol = ProtocolHTTPS, inboundCIDRv4s = [], inboundCIDRv6s = [],
        sslPolicy = None, tlsCerts = [''x'']\<rparr>),
      (\<lparr>Namespace = ''default'', Name = ''b''\<rparr>,
       \<lparr>protocol = ProtocolHTTPS, inboundCIDRv4s = [], inboundCIDRv6s = [],
        sslPolicy = None, tlsCerts = [''y'', ''x'']\<rparr>)]
   = Inr \<lparr>protocol = ProtocolHTTPS, inboundCIDRv4s = [''0.0.0.0/0''], inboundCIDRv6s = [''::/0''],
          sslPolicy = Some ''ELBSecurityPolicy-2016-08'', tlsCerts = [''x'', ''y'']\<rparr>"
    by code_simp
  have s: "set [(\<lparr>Namespace = ''default'', Name = ''b''\<rparr>,
       \<lparr>protocol = ProtocolHTTPS, inboundCIDRv4s = [], inboundCIDRv6s = [],
        sslPolicy = None, tlsCerts = [''y'', ''x'']\<rparr>),
      (\<lparr>Namespace = ''default'', Name = ''a''\<rparr>,
       \<lparr>protocol = ProtocolHTTPS, inboundCIDRv4s = [], inboundCIDRv6s = [],
        sslPolicy = None, tlsCerts = [''x'']\<rparr>)] =
     set [(\<lparr>Namespace = ''default'', Name = ''a''\<rparr>,
       \<lparr>protocol = ProtocolHTTPS, inboundCIDRv4s = [], inboundCIDRv6s = [],
        sslPolicy = None, tlsCerts = [''x'']\<rparr>),
      (\<lparr>Namespace = ''default'', Name = ''b''\<rparr>,
       \<lparr>protocol = ProtocolHTTPS, inboundCIDRv4s = [], inboundCIDRv6s = [],
        sslPolicy = None, tlsCerts = [''y'', ''x'']\<rparr>)]"
    by (simp add: insert_commute)
  from tls_certs_union
    [of "newBuildTask ([] :: Ingress list)"
        "[(\<lparr>Namespace = ''default'', Name = ''a''\<rparr>,
       \<lparr>protocol = ProtocolHTTPS, inboundCIDRv4s = [], inboundCIDRv6s = [],
        sslPolicy = None, tlsCerts = [''x'']\<rparr>),
      (\<lparr>Namespace = ''default'', Name = ''b''\<rparr>,
       \<lparr>protocol = ProtocolHTTPS, inboundCIDRv4s = [], inboundCIDRv6s = [],
        sslPolicy = None, tlsCerts = [''y'', ''x'']\<rparr>)]"
        "\<lparr>protocol = ProtocolHTTPS, inboundCIDRv4s = [''0.0.0.0/0''], inboundCIDRv6s = [''::/0''],
          sslPolicy = Some ''ELBSecurityPolicy-2016-08'', tlsCerts = [''x'', ''y'']\<rparr>"
        "[(\<lparr>Namespace = ''default'', Name = ''b''\<rparr>,
       \<lparr>protocol = ProtocolHTTPS, inboundCIDRv4s = [], inboundCIDRv6s = [],
        sslPolicy = None, tlsCerts = [''y'', ''x'']\<rparr>),
      (\<lparr>Namespace = ''default'', Name = ''a''\<rparr>,
       \<lparr>protocol = ProtocolHTTPS, inboundCIDRv4s = [], inboundCIDRv6s = [],
        sslPolicy = None, tlsCerts = [''x'']\<rparr>)]"] e s
  have "\<exists>merged'. mergeListenPortConfigs (newBuildTask ([] :: Ingress list))
     [(\<lparr>Namespace = ''default'', Name = ''b''\<rparr>,
       \<lparr>protocol = ProtocolHTTPS, inboundCIDRv4s = [], inboundCIDRv6s = [],
        sslPolicy = None, tlsCerts = [''y'', ''x'']\<rparr>),
      (\<lparr>Namespace = ''default'', Name = ''a''\<rparr>,
       \<lparr>protocol = ProtocolHTTPS, inboundCIDRv4s = [], inboundCIDRv6s = [],
        sslPolicy = None, tlsCerts = [''x'']\<rparr>)] = Inr merged' \<and> tlsCerts merged' = [''x'', ''y'']"
    by simp
  moreover have "mergeListenPortConfigs (newBuildTask ([] :: Ingress list))
     [(\<lparr>Namespace = ''default'', Name = ''b''\<rparr>,
       \<lparr>protocol = ProtocolHTTPS, inboundCIDRv4s = [], inboundCIDRv6s = [],
        sslPolicy = None, tlsCerts = [''y'', ''x'']\<rparr>),
      (\<lparr>Namespace = ''default'', Name = ''a''\<rparr>,
       \<lparr>protocol = ProtocolHTTPS, inboundCIDRv4s = [], inboundCIDRv6s = [],
        sslPolicy = None, tlsCerts = [''x'']\<rparr>)]
   = Inr \<lparr>protocol = ProtocolHTTPS, inboundCIDRv4s = [''0.0.0.0/0''], inboundCIDRv6s = [''::/0''],
          sslPolicy = Some ''ELBSecurityPolicy-2016-08'', tlsCerts = [''x'', ''y'']\<rparr>"
    by code_simp
  ultimately show ?thesis using e by simp
qed

section \<open>The order of the members\<close>

text \<open>
  C4, as amended. For two orders of iteration over the same map of members, the merge
  succeeds in one exactly when it succeeds in the other, with the same merged configuration,
  and so fails in one exactly when it fails in the other. Which conflict the error reports,
  and which members and values it names, is left open: it depends on the order.
\<close>

theorem merge_order_independent_success:
  "distinct (map fst xs) \<and> distinct (map fst ys) \<and> set xs = set ys \<longrightarrow>
     (mergeListenPortConfigs t xs = Inr merged \<longleftrightarrow> mergeListenPortConfigs t ys = Inr merged) \<and>
     ((\<exists>err. mergeListenPortConfigs t xs = Inl err) \<longleftrightarrow>
      (\<exists>err. mergeListenPortConfigs t ys = Inl err))"
proof (intro impI)
  assume a: "distinct (map fst xs) \<and> distinct (map fst ys) \<and> set xs = set ys"
  then have dx: "distinct (map fst xs)" and dy: "distinct (map fst ys)"
    and s: "set xs = set ys" by blast+
  have r: "mergeListenPortConfigs t xs = Inr cfg \<longleftrightarrow> mergeListenPortConfigs t ys = Inr cfg"
    for cfg
  proof
    assume "mergeListenPortConfigs t xs = Inr cfg"
    then show "mergeListenPortConfigs t ys = Inr cfg" by (rule merge_order_success [OF dx dy s])
  next
    assume "mergeListenPortConfigs t ys = Inr cfg"
    then show "mergeListenPortConfigs t xs = Inr cfg"
      by (rule merge_order_success [OF dy dx s [symmetric]])
  qed
  have "(\<exists>err. mergeListenPortConfigs t xs = Inl err) \<longleftrightarrow>
      (\<exists>err. mergeListenPortConfigs t ys = Inl err)"
  proof (cases "mergeListenPortConfigs t xs")
    case (Inl e)
    with r have "\<forall>cfg. mergeListenPortConfigs t ys \<noteq> Inr cfg" by (metis Inl_Inr_False)
    then have "\<exists>err. mergeListenPortConfigs t ys = Inl err"
      by (cases "mergeListenPortConfigs t ys") blast+
    with Inl show ?thesis by blast
  next
    case (Inr cfg)
    with r have "mergeListenPortConfigs t ys = Inr cfg" by blast
    with Inr show ?thesis by simp
  qed
  with r show "(mergeListenPortConfigs t xs = Inr merged \<longleftrightarrow>
      mergeListenPortConfigs t ys = Inr merged) \<and>
     ((\<exists>err. mergeListenPortConfigs t xs = Inl err) \<longleftrightarrow>
      (\<exists>err. mergeListenPortConfigs t ys = Inl err))" by blast
qed

theorem merge_order_independent_success_witness:
  "mergeListenPortConfigs (newBuildTask ([] :: Ingress list))
     [(\<lparr>Namespace = ''default'', Name = ''a''\<rparr>,
       \<lparr>protocol = ProtocolHTTPS, inboundCIDRv4s = [''10.0.0.0/8''], inboundCIDRv6s = [],
        sslPolicy = None, tlsCerts = [''x'']\<rparr>),
      (\<lparr>Namespace = ''default'', Name = ''b''\<rparr>,
       \<lparr>protocol = ProtocolHTTPS, inboundCIDRv4s = [], inboundCIDRv6s = [],
        sslPolicy = Some ''ELBSecurityPolicy-TLS-1-2-2017-01'', tlsCerts = [''y'']\<rparr>)]
   = Inr \<lparr>protocol = ProtocolHTTPS, inboundCIDRv4s = [''10.0.0.0/8''], inboundCIDRv6s = [],
          sslPolicy = Some ''ELBSecurityPolicy-TLS-1-2-2017-01'', tlsCerts = [''x'', ''y'']\<rparr> \<and>
   mergeListenPortConfigs (newBuildTask ([] :: Ingress list))
     [(\<lparr>Namespace = ''default'', Name = ''b''\<rparr>,
       \<lparr>protocol = ProtocolHTTPS, inboundCIDRv4s = [], inboundCIDRv6s = [],
        sslPolicy = Some ''ELBSecurityPolicy-TLS-1-2-2017-01'', tlsCerts = [''y'']\<rparr>),
      (\<lparr>Namespace = ''default'', Name = ''a''\<rparr>,
       \<lparr>protocol = ProtocolHTTPS, inboundCIDRv4s = [''10.0.0.0/8''], inboundCIDRv6s = [],
        sslPolicy = None, tlsCerts = [''x'']\<rparr>)]
   = Inr \<lparr>protocol = ProtocolHTTPS, inboundCIDRv4s = [''10.0.0.0/8''], inboundCIDRv6s = [],
          sslPolicy = Some ''ELBSecurityPolicy-TLS-1-2-2017-01'', tlsCerts = [''x'', ''y'']\<rparr>"
  (is "mergeListenPortConfigs ?t ?xs = Inr ?m \<and> mergeListenPortConfigs ?t ?ys = Inr ?m")
proof -
  have e: "mergeListenPortConfigs ?t ?xs = Inr ?m" by code_simp
  have h: "distinct (map fst ?xs) \<and> distinct (map fst ?ys) \<and> set ?xs = set ?ys"
    by (simp add: insert_commute)
  from merge_order_independent_success [of ?xs ?ys ?t ?m] h
  have "mergeListenPortConfigs ?t ?xs = Inr ?m \<longleftrightarrow> mergeListenPortConfigs ?t ?ys = Inr ?m"
    by blast
  with e have "mergeListenPortConfigs ?t ?ys = Inr ?m" by blast
  with e show ?thesis by (rule conjI)
qed

text \<open>
  The claim as first stated, the same error in every order, fails: the members \<open>a\<close> and \<open>b\<close>
  define different CIDRs, and \<open>c\<close> has another protocol. Visited as \<open>a\<close>, \<open>b\<close>, \<open>c\<close> the
  merge reports the CIDRs of \<open>b\<close>; visited as \<open>a\<close>, \<open>c\<close>, \<open>b\<close> it reports the protocols
  of \<open>a\<close> and \<open>c\<close>.
\<close>

theorem merge_order_dependent_error_counterexample:
  "set [(\<lparr>Namespace = ''default'', Name = ''a''\<rparr>,
         \<lparr>protocol = ProtocolHTTP, inboundCIDRv4s = [''10.0.0.0/8''], inboundCIDRv6s = [],
          sslPolicy = None, tlsCerts = []\<rparr>),
        (\<lparr>Namespace = ''default'', Name = ''b''\<rparr>,
         \<lparr>protocol = ProtocolHTTP, inboundCIDRv4s = [''192.168.0.0/16''], inboundCIDRv6s = [],
          sslPolicy = None, tlsCerts = []\<rparr>),
        (\<lparr>Namespace = ''default'', Name = ''c''\<rparr>,
         \<lparr>protocol = ProtocolHTTPS, inboundCIDRv4s = [], inboundCIDRv6s = [],
          sslPolicy = None, tlsCerts = []\<rparr>)]
   = set [(\<lparr>Namespace = ''default'', Name = ''a''\<rparr>,
         \<lparr>protocol = ProtocolHTTP, inboundCIDRv4s = [''10.0.0.0/8''], inboundCIDRv6s = [],
          sslPolicy = None, tlsCerts = []\<rparr>),
        (\<lparr>Namespace = ''default'', Name = ''c''\<rparr>,
         \<lparr>protocol = ProtocolHTTPS, inboundCIDRv4s = [], inboundCIDRv6s = [],
          sslPolicy = None, tlsCerts = []\<rparr>),
        (\<lparr>Namespace = ''default'', Name = ''b''\<rparr>,
         \<lparr>protocol = ProtocolHTTP, inboundCIDRv4s = [''192.168.0.0/16''], inboundCIDRv6s = [],
          sslPolicy = None, tlsCerts = []\<rparr>)] \<and>
   mergeListenPortConfigs (newBuildTask ([] :: Ingress list))
     [(\<lparr>Namespace = ''default'', Name = ''a''\<rparr>,
       \<lparr>protocol = ProtocolHTTP, inboundCIDRv4s = [''10.0.0.0/8''], inboundCIDRv6s = [],
        sslPolicy = None, tlsCerts = []\<rparr>),
      (\<lparr>Namespace = ''default'', Name = ''b''\<rparr>,
       \<lparr>protocol = ProtocolHTTP, inboundCIDRv4s = [''192.168.0.0/16''], inboundCIDRv6s = [],
        sslPolicy = None, tlsCerts = []\<rparr>),
      (\<lparr>Namespace = ''default'', Name = ''c''\<rparr>,
       \<lparr>protocol = ProtocolHTTPS, inboundCIDRv4s = [], inboundCIDRv6s = [],
        sslPolicy = None, tlsCerts = []\<rparr>)]
   = Inl (fundamental
       ''conflicting sslPolicy, /: [10.0.0.0/8], [] | default/b: [192.168.0.0/16], []'') \<and>
   mergeListenPortConfigs (newBuildTask ([] :: Ingress list))
     [(\<lparr>Namespace = ''default'', Name = ''a''\<rparr>,
       \<lparr>protocol = ProtocolHTTP, inboundCIDRv4s = [''10.0.0.0/8''], inboundCIDRv6s = [],
        sslPolicy = None, tlsCerts = []\<rparr>),
      (\<lparr>Namespace = ''default'', Name = ''c''\<rparr>,
       \<lparr>protocol = ProtocolHTTPS, inboundCIDRv4s = [], inboundCIDRv6s = [],
        sslPolicy = None, tlsCerts = []\<rparr>),
      (\<lparr>Namespace = ''default'', Name = ''b''\<rparr>,
       \<lparr>protocol = ProtocolHTTP, inboundCIDRv4s = [''192.168.0.0/16''], inboundCIDRv6s = [],
        sslPolicy = None, tlsCerts = []\<rparr>)]
   = Inl (fundamental ''conflicting protocol, default/a: HTTP | default/c: HTTPS'')"
  by (simp add: merge_eval insert_commute)

section \<open>The error of the per-member computation\<close>

text \<open>
  C6, as amended. When the per-member computation fails for a member, and for no member
  before it, \<^verbatim>\<open>run\<close> stops there and returns the collaborator's error as it is: the whole
  build is aborted, and nothing is put around the error.
\<close>

theorem collaborator_error_verbatim:
  "(\<forall>i\<in>set pre. \<exists>cfgs. computeIngressListenPortConfigByPort c i = Inr cfgs) \<and>
   computeIngressListenPortConfigByPort c ing = Inl err \<and>
   ingGroupMembers t = pre @ ing # post \<longrightarrow>
     run c t s = Inl err"
proof
  assume a: "(\<forall>i\<in>set pre. \<exists>cfgs. computeIngressListenPortConfigByPort c i = Inr cfgs) \<and>
   computeIngressListenPortConfigByPort c ing = Inl err \<and>
   ingGroupMembers t = pre @ ing # post"
  then have "collectListenPortConfigs c \<lparr>ingListByPort = [], listenPortConfigsByPort = []\<rparr>
      (ingGroupMembers t) = Inl err"
    using collect_first_error [of pre c ing err] by simp
  with a show "run c t s = Inl err" by (simp add: run_def)
qed

theorem collaborator_error_verbatim_witness:
  "run \<lparr>computeIngressListenPortConfigByPort =
          (\<lambda>ing. if ObjName ing = ''web'' then Inl (errors_New ''invalid annotation'')
                 else Inr [(80, \<lparr>protocol = ProtocolHTTP, inboundCIDRv4s = [], inboundCIDRv6s = [],
                                 sslPolicy = None, tlsCerts = []\<rparr>)]),
        buildLoadBalancer = (\<lambda>s cfgs. Inr ((), s)),
        buildListener = (\<lambda>s lb port cfg ings. Inr ((), s)),
        buildListenerRules = (\<lambda>s ls port p ings. Inr s),
        buildLoadBalancerAddOns = (\<lambda>s lb. Inr s)\<rparr>
     (newBuildTask [\<lparr>ObjNamespace = ''default'', ObjName = ''api''\<rparr>,
                    \<lparr>ObjNamespace = ''default'', ObjName = ''web''\<rparr>])
     ()
   = Inl (errors_New ''invalid annotation'')"
  using collaborator_error_verbatim
    [of "[\<lparr>ObjNamespace = ''default'', ObjName = ''api''\<rparr>]"
        "\<lparr>computeIngressListenPortConfigByPort =
          (\<lambda>ing. if ObjName ing = ''web'' then Inl (errors_New ''invalid annotation'')
                 else Inr [(80, \<lparr>protocol = ProtocolHTTP, inboundCIDRv4s = [], inboundCIDRv6s = [],
                                 sslPolicy = None, tlsCerts = []\<rparr>)]),
        buildLoadBalancer = (\<lambda>s cfgs. Inr ((), s)),
        buildListener = (\<lambda>s lb port cfg ings. Inr ((), s)),
        buildListenerRules = (\<lambda>s ls port p ings. Inr s),
        buildLoadBalancerAddOns = (\<lambda>s lb. Inr s)\<rparr>"
        "\<lparr>ObjNamespace = ''default'', ObjName = ''web''\<rparr>"
        "errors_New ''invalid annotation''"
        "newBuildTask [\<lparr>ObjNamespace = ''default'', ObjName = ''api''\<rparr>,
                    \<lparr>ObjNamespace = ''default'', ObjName = ''web''\<rparr>]"
        "[]" "()"]
  by (simp add: newBuildTask_def)

text \<open>
  The claim as first stated, the error wrapped with the identity of the failing member,
  fails: for the single member \<^verbatim>\<open>default/web\<close> the error returned is the collaborator's
  own, and its message holds neither the member's key nor its name.
\<close>

theorem collaborator_error_wrapped_counterexample:
  "run \<lparr>computeIngressListenPortConfigByPort =
          (\<lambda>ing. Inl (errors_New ''invalid annotation'')),
        buildLoadBalancer = (\<lambda>s cfgs. Inr ((), s)),
        buildListener = (\<lambda>s lb port cfg ings. Inr ((), s)),
        buildListenerRules = (\<lambda>s ls port p ings. Inr s),
        buildLoadBalancerAddOns = (\<lambda>s lb. Inr s)\<rparr>
     (newBuildTask [\<lparr>ObjNamespace = ''default'', ObjName = ''web''\<rparr>])
     ()
   = Inl (fundamental ''invalid annotation'') \<and>
   fmt_NamespacedName (k8s_NamespacedName \<lparr>ObjNamespace = ''default'', ObjName = ''web''\<rparr>)
   = ''default/web'' \<and>
   \<not> sublist ''default/web'' (Error (fundamental ''invalid annotation'')) \<and>
   \<not> sublist ''web'' (Error (fundamental ''invalid annotation''))"
proof -
  have "\<not> sublist ''default/web'' ''invalid annotation''" by code_simp
  moreover have "\<not> sublist ''web'' ''invalid annotation''" by code_simp
  ultimately show ?thesis
    by (simp add: run_def newBuildTask_def errors_New_def fmt_NamespacedName_def
        k8s_NamespacedName_def)
qed

section \<open>Live records of another owner\<close>

text \<open>
  C3. For a desired protection whose live record exists and does not carry the ownership
  marker, whatever its activation flag, the reconciliation reads the record and does nothing
  else: no create call, no delete call, no error, the live state unchanged. A pass over
  desired resources that are all of this sort issues read calls only, returns no error and
  leaves the live state as it was. In a pass over any desired resources, no create or delete
  call is issued against a resource whose live record stays that of another owner.
\<close>

theorem synthesizer_ignores_foreign:
  "(resolveToken attrs (ResourceARN res) = Some arn \<and>
    GetProtection mgr (live st) arn = Inr (Some info) \<and>
    ProtectionName info \<noteq> protectionNameManaged \<longrightarrow>
      synthesizeProtection mgr attrs st res = st\<lparr>calls := calls st @ [GetCall arn]\<rparr>) \<and>
   ((\<forall>res\<in>set desired. \<exists>arn info.
        resolveToken attrs (ResourceARN res) = Some arn \<and>
        GetProtection mgr m arn = Inr (Some info) \<and>
        ProtectionName info \<noteq> protectionNameManaged) \<longrightarrow>
      live (Synthesize mgr attrs m desired) = m \<and>
      errs (Synthesize mgr attrs m desired) = [] \<and>
      (\<forall>c\<in>set (calls (Synthesize mgr attrs m desired)). \<exists>a. c = GetCall a)) \<and>
   ((\<forall>m'. GetProtection mgr m' arn = Inr (Some info)) \<and>
    ProtectionName info \<noteq> protectionNameManaged \<longrightarrow>
      (\<forall>c\<in>set (calls (Synthesize mgr attrs m desired)). \<not> mutatesARN arn c))"
proof (intro conjI impI)
  assume "resolveToken attrs (ResourceARN res) = Some arn \<and>
    GetProtection mgr (live st) arn = Inr (Some info) \<and>
    ProtectionName info \<noteq> protectionNameManaged"
  then show "synthesizeProtection mgr attrs st res = st\<lparr>calls := calls st @ [GetCall arn]\<rparr>"
    by (simp add: synthesizeProtection_foreign)
next
  assume a: "\<forall>res\<in>set desired. \<exists>arn info.
        resolveToken attrs (ResourceARN res) = Some arn \<and>
        GetProtection mgr m arn = Inr (Some info) \<and>
        ProtectionName info \<noteq> protectionNameManaged"
  have "live \<lparr>live = m, calls = [], errs = []\<rparr> = m" by simp
  note f = fold_foreign [OF a this]
  from f show "live (Synthesize mgr attrs m desired) = m" by (simp add: Synthesize_def)
  from f show "errs (Synthesize mgr attrs m desired) = []" by (simp add: Synthesize_def)
  from f show "\<forall>c\<in>set (calls (Synthesize mgr attrs m desired)). \<exists>a. c = GetCall a"
    by (simp add: Synthesize_def)
next
  assume a: "(\<forall>m'. GetProtection mgr m' arn = Inr (Some info)) \<and>
    ProtectionName info \<noteq> protectionNameManaged"
  have "\<forall>c\<in>set (calls \<lparr>live = m, calls = [], errs = []\<rparr>). \<not> mutatesARN arn c" by simp
  from fold_keeps_foreign [OF conjunct1 [OF a] conjunct2 [OF a] this]
  show "\<forall>c\<in>set (calls (Synthesize mgr attrs m desired)). \<not> mutatesARN arn c"
    by (simp add: Synthesize_def)
qed

theorem synthesizer_ignores_foreign_witness:
  "Synthesize
     \<lparr>GetProtection = (\<lambda>m arn. Inr (m arn)),
      CreateProtection = (\<lambda>m arn name. (Inr ''new-id'', m(arn \<mapsto> \<lparr>ProtectionName = name, ProtectionID = ''new-id''\<rparr>))),
      DeleteProtection = (\<lambda>m arn ident. (None, m(arn := None)))\<rparr>
     Map.empty
     [''arn'' \<mapsto> \<lparr>ProtectionName = ''managed by someone-else'', ProtectionID = ''id''\<rparr>]
     [\<lparr>Enabled = False, ResourceARN = LiteralStringToken ''arn''\<rparr>,
      \<lparr>Enabled = True, ResourceARN = LiteralStringToken ''arn''\<rparr>]
   = \<lparr>live = [''arn'' \<mapsto> \<lparr>ProtectionName = ''managed by someone-else'', ProtectionID = ''id''\<rparr>],
      calls = [GetCall ''arn'', GetCall ''arn''],
      errs = []\<rparr>"
  using synthesizer_ignores_foreign
    [of Map.empty "\<lparr>Enabled = False, ResourceARN = LiteralStringToken ''arn''\<rparr>" "''arn''"
        "\<lparr>GetProtection = (\<lambda>m arn. Inr (m arn)),
          CreateProtection = (\<lambda>m arn name. (Inr ''new-id'', m(arn \<mapsto> \<lparr>ProtectionName = name, ProtectionID = ''new-id''\<rparr>))),
          DeleteProtection = (\<lambda>m arn ident. (None, m(arn := None)))\<rparr>"
        "\<lparr>live = [''arn'' \<mapsto> \<lparr>ProtectionName = ''managed by someone-else'', ProtectionID = ''id''\<rparr>],
          calls = [], errs = []\<rparr>"
        "\<lparr>ProtectionName = ''managed by someone-else'', ProtectionID = ''id''\<rparr>"]
  by (simp add: Synthesize_def synthesizeProtection_def protectionNameManaged_def Let_def)

end
